theory Spec2Isabelle
  imports Main "HOL-Library.AList"
begin

section \<open>Python values and dictionaries\<close>

text \<open>
  The options handed to \<open>SVMLightDataset\<close> are typed \<open>dict[str, Any]\<close>. The values are
  modelled by a JSON-like fragment of Python's objects; a dictionary is an association
  list in insertion order, with string keys.
\<close>

datatype pyval =
    PNone
  | PBool bool
  | PInt int
  | PStr string
  | PList "pyval list"
  | PDict "(string \<times> pyval) list"

type_synonym pydict = "(string \<times> pyval) list"

datatype error =
    DatasetError string
  | TypeError string
  | OtherError string

text \<open>Truth value of an object, as \<open>x or y\<close> tests it.\<close>

fun truthy :: "pyval \<Rightarrow> bool" where
  "truthy PNone = False"
| "truthy (PBool b) = b"
| "truthy (PInt i) = (i \<noteq> 0)"
| "truthy (PStr s) = (s \<noteq> [])"
| "truthy (PList xs) = (xs \<noteq> [])"
| "truthy (PDict d) = (d \<noteq> [])"

definition py_or :: "pyval \<Rightarrow> pyval \<Rightarrow> pyval" where
  "py_or a b = (if truthy a then a else b)"

text \<open>\<open>d or {}\<close> for an argument typed \<open>dict[str, Any] | None\<close>.\<close>

definition or_empty :: "pydict option \<Rightarrow> pydict" where
  "or_empty d = (case d of None \<Rightarrow> [] | Some kvs \<Rightarrow> if kvs = [] then [] else kvs)"

text \<open>
  \<open>copy.deepcopy\<close> returns an object equal to its argument; on values it is the identity.
  What it does to the objects themselves is modelled in the section on the object store
  below.
\<close>

definition deepcopy :: "pydict option \<Rightarrow> pydict option" where
  "deepcopy d = d"

text \<open>\<open>d.pop(k, default)\<close>: the value removed (or the default) and the dictionary left.\<close>

definition dict_pop :: "string \<Rightarrow> 'v \<Rightarrow> (string \<times> 'v) list \<Rightarrow> 'v \<times> (string \<times> 'v) list" where
  "dict_pop k dflt d =
     (case map_of d k of
        None \<Rightarrow> (dflt, d)
      | Some v \<Rightarrow> (v, AList.delete k d))"

text \<open>\<open>d.setdefault(k, v)\<close>: a present key keeps its value, an absent one is appended.\<close>

definition dict_setdefault :: "string \<Rightarrow> 'v \<Rightarrow> (string \<times> 'v) list \<Rightarrow> (string \<times> 'v) list" where
  "dict_setdefault k v d =
     (case map_of d k of
        None \<Rightarrow> d @ [(k, v)]
      | Some _ \<Rightarrow> d)"

text \<open>
  The dictionary display \<open>{**a, **b}\<close>: the entries of \<open>a\<close>, then those of \<open>b\<close> from left
  to right, a key already present keeping its place and taking the later value.
\<close>

definition dict_merge :: "(string \<times> 'v) list \<Rightarrow> (string \<times> 'v) list \<Rightarrow> (string \<times> 'v) list" where
  "dict_merge a b = fold (\<lambda>(k, v). AList.update k v) b a"

text \<open>\<open>**v\<close> needs a mapping; anything else raises \<open>TypeError\<close>.\<close>

fun unpack_mapping :: "pyval \<Rightarrow> error + pydict" where
  "unpack_mapping (PDict d) = Inr d"
| "unpack_mapping _ = Inl (TypeError ''argument after ** must be a mapping'')"

text \<open>
  The keyword arguments of a call \<open>f(**a, **b)\<close>: a key given by both raises
  \<open>TypeError\<close> before \<open>f\<close> is entered.
\<close>

definition call_kwargs :: "(string \<times> 'v) list \<Rightarrow> (string \<times> 'v) list \<Rightarrow> error + (string \<times> 'v) list" where
  "call_kwargs a b =
     (if \<exists>k \<in> set (map fst a). k \<in> set (map fst b)
      then Inl (TypeError ''got multiple values for keyword argument'')
      else Inr (a @ b))"

section \<open>The collaborators of the adapter\<close>

text \<open>
  \<open>kedro.io.core.Version\<close>: a load and a save version, each of which may be unset.
\<close>

record version =
  v_load :: "string option"
  v_save :: "string option"

datatype pure_path = PurePosixPath string

text \<open>
  The adapter composes functions of kedro, fsspec and scikit-learn that are not part of
  this repository. They are parameters of the model: functions on a world \<open>'w\<close> (the
  storage, the caches of the filesystem object, the version cache of the base class),
  each returning its result or the exception it raised, and the world it leaves.
  \<open>'fs\<close> is the filesystem object, \<open>'h\<close> an open file object, \<open>'x\<close> and \<open>'y\<close> the feature
  matrix and the label vector.

  \<^item> \<open>get_load_path\<close>, \<open>get_save_path\<close>: \<open>AbstractVersionedDataset._get_load_path\<close> and
    \<open>_get_save_path\<close>, which read \<open>self._filepath\<close>, \<open>self._version\<close> and the filesystem;
  \<^item> \<open>file_exit\<close>: the file object's \<open>__exit__\<close>, which closes it (\<open>__enter__\<close> returns the
    file object itself);
  \<^item> \<open>super_release\<close>: \<open>AbstractVersionedDataset._release\<close>.
\<close>

record ('w, 'fs, 'h, 'x, 'y) collaborators =
  get_protocol_and_path :: "string \<Rightarrow> version option \<Rightarrow> error + (string \<times> string)"
  fsspec_filesystem :: "string \<Rightarrow> pydict \<Rightarrow> 'w \<Rightarrow> (error + 'fs) \<times> 'w"
  get_filepath_str :: "pure_path \<Rightarrow> string \<Rightarrow> string"
  get_load_path :: "pure_path \<Rightarrow> version option \<Rightarrow> 'fs \<Rightarrow> 'w \<Rightarrow> (error + pure_path) \<times> 'w"
  get_save_path :: "pure_path \<Rightarrow> version option \<Rightarrow> 'fs \<Rightarrow> 'w \<Rightarrow> (error + pure_path) \<times> 'w"
  fs_open :: "'fs \<Rightarrow> string \<Rightarrow> pydict \<Rightarrow> 'w \<Rightarrow> (error + 'h) \<times> 'w"
  file_exit :: "'h \<Rightarrow> 'w \<Rightarrow> error option \<times> 'w"
  load_svmlight_file :: "'h \<Rightarrow> pydict \<Rightarrow> 'w \<Rightarrow> (error + 'x \<times> 'y) \<times> 'w"
  dump_svmlight_file :: "'x \<Rightarrow> 'y \<Rightarrow> 'h \<Rightarrow> pydict \<Rightarrow> 'w \<Rightarrow> error option \<times> 'w"
  fs_exists :: "'fs \<Rightarrow> string \<Rightarrow> 'w \<Rightarrow> (error + bool) \<times> 'w"
  fs_invalidate_cache :: "'fs \<Rightarrow> string \<Rightarrow> 'w \<Rightarrow> error option \<times> 'w"
  super_release :: "'w \<Rightarrow> error option \<times> 'w"

section \<open>The adapter\<close>

text \<open>The attributes \<open>self._protocol\<close>, \<open>self._fs\<close>, ... of an instance.\<close>

record 'fs SVMLightDataset =
  self_protocol :: string
  self_fs :: 'fs
  self_metadata :: "pydict option"
  self_filepath :: pure_path
  self_version :: "version option"
  self_load_args :: pydict
  self_save_args :: pydict
  self_fs_open_args_load :: pydict
  self_fs_open_args_save :: pydict

definition DEFAULT_LOAD_ARGS :: pydict where
  "DEFAULT_LOAD_ARGS = []"

definition DEFAULT_SAVE_ARGS :: pydict where
  "DEFAULT_SAVE_ARGS = []"

definition DEFAULT_FS_ARGS :: pydict where
  "DEFAULT_FS_ARGS =
     [(''open_args_save'', PDict [(''mode'', PStr ''wb'')]),
      (''open_args_load'', PDict [(''mode'', PStr ''rb'')])]"

text \<open>\<open>d.get(k, default)\<close>.\<close>

definition dict_get :: "pydict \<Rightarrow> string \<Rightarrow> pyval \<Rightarrow> pyval" where
  "dict_get d k dflt = (case map_of d k of None \<Rightarrow> dflt | Some v \<Rightarrow> v)"

text \<open>
  \<open>SVMLightDataset.__init__\<close>, statement by statement. An exception leaves no instance:
  the result is \<open>Inl\<close> of it, with the world as it was when it was raised.
\<close>

definition SVMLightDataset_init ::
  "('w, 'fs, 'h, 'x, 'y) collaborators \<Rightarrow> string \<Rightarrow> pydict option \<Rightarrow> pydict option \<Rightarrow>
   version option \<Rightarrow> pydict option \<Rightarrow> pydict option \<Rightarrow> pydict option \<Rightarrow> 'w \<Rightarrow>
   (error + 'fs SVMLightDataset) \<times> 'w" where
  "SVMLightDataset_init env filepath load_args save_args version credentials fs_args metadata w =
     (let fs_args0 = or_empty (deepcopy fs_args);
          (fs_open_args_load, fs_args1) = dict_pop ''open_args_load'' (PDict []) fs_args0;
          (fs_open_args_save, fs_args2) = dict_pop ''open_args_save'' (PDict []) fs_args1;
          credentials0 = or_empty (deepcopy credentials)
      in (case get_protocol_and_path env filepath version of
            Inl e \<Rightarrow> (Inl e, w)
          | Inr (protocol, path) \<Rightarrow>
             (let fs_args3 = (if protocol = ''file''
                              then dict_setdefault ''auto_mkdir'' (PBool True) fs_args2
                              else fs_args2)
              in (case call_kwargs credentials0 fs_args3 of
                    Inl e \<Rightarrow> (Inl e, w)
                  | Inr kwargs \<Rightarrow>
                     (case fsspec_filesystem env protocol kwargs w of
                        (Inl e, w1) \<Rightarrow> (Inl e, w1)
                      | (Inr fs, w1) \<Rightarrow>
                         (case unpack_mapping (dict_get DEFAULT_FS_ARGS ''open_args_load'' (PDict [])) of
                            Inl e \<Rightarrow> (Inl e, w1)
                          | Inr dflt_load \<Rightarrow>
                         (case unpack_mapping (py_or fs_open_args_load (PDict [])) of
                            Inl e \<Rightarrow> (Inl e, w1)
                          | Inr open_load \<Rightarrow>
                         (case unpack_mapping (dict_get DEFAULT_FS_ARGS ''open_args_save'' (PDict [])) of
                            Inl e \<Rightarrow> (Inl e, w1)
                          | Inr dflt_save \<Rightarrow>
                         (case unpack_mapping (py_or fs_open_args_save (PDict [])) of
                            Inl e \<Rightarrow> (Inl e, w1)
                          | Inr open_save \<Rightarrow>
                              (Inr \<lparr> self_protocol = protocol,
                                     self_fs = fs,
                                     self_metadata = metadata,
                                     self_filepath = PurePosixPath path,
                                     self_version = version,
                                     self_load_args = dict_merge DEFAULT_LOAD_ARGS (or_empty load_args),
                                     self_save_args = dict_merge DEFAULT_SAVE_ARGS (or_empty save_args),
                                     self_fs_open_args_load = dict_merge dflt_load open_load,
                                     self_fs_open_args_save = dict_merge dflt_save open_save \<rparr>,
                               w1))))))))))"

text \<open>
  \<open>load\<close>. The \<open>with\<close> statement runs the file object's \<open>__exit__\<close> when its body
  returns and when its body raises; an exception of \<open>__exit__\<close> replaces the outcome of the
  body. When \<open>open\<close> itself raises there is no file object.
\<close>

definition load ::
  "('w, 'fs, 'h, 'x, 'y) collaborators \<Rightarrow> 'fs SVMLightDataset \<Rightarrow> 'w \<Rightarrow> (error + 'x \<times> 'y) \<times> 'w" where
  "load env self w =
     (case get_load_path env (self_filepath self) (self_version self) (self_fs self) w of
        (Inl e, w1) \<Rightarrow> (Inl e, w1)
      | (Inr p, w1) \<Rightarrow>
         (let load_path = get_filepath_str env p (self_protocol self)
          in (case fs_open env (self_fs self) load_path (self_fs_open_args_load self) w1 of
                (Inl e, w2) \<Rightarrow> (Inl e, w2)
              | (Inr fs_file, w2) \<Rightarrow>
                 (case load_svmlight_file env fs_file (self_load_args self) w2 of
                    (r, w3) \<Rightarrow>
                     (case file_exit env fs_file w3 of
                        (Some e, w4) \<Rightarrow> (Inl e, w4)
                      | (None, w4) \<Rightarrow> (r, w4))))))"

definition invalidate_cache ::
  "('w, 'fs, 'h, 'x, 'y) collaborators \<Rightarrow> 'fs SVMLightDataset \<Rightarrow> 'w \<Rightarrow> error option \<times> 'w" where
  "invalidate_cache env self w =
     (let filepath = get_filepath_str env (self_filepath self) (self_protocol self)
      in fs_invalidate_cache env (self_fs self) filepath w)"

definition save ::
  "('w, 'fs, 'h, 'x, 'y) collaborators \<Rightarrow> 'fs SVMLightDataset \<Rightarrow> 'x \<times> 'y \<Rightarrow> 'w \<Rightarrow> error option \<times> 'w" where
  "save env self data w =
     (case get_save_path env (self_filepath self) (self_version self) (self_fs self) w of
        (Inl e, w1) \<Rightarrow> (Some e, w1)
      | (Inr p, w1) \<Rightarrow>
         (let save_path = get_filepath_str env p (self_protocol self)
          in (case fs_open env (self_fs self) save_path (self_fs_open_args_save self) w1 of
                (Inl e, w2) \<Rightarrow> (Some e, w2)
              | (Inr fs_file, w2) \<Rightarrow>
                 (case dump_svmlight_file env (fst data) (snd data) fs_file (self_save_args self) w2 of
                    (r, w3) \<Rightarrow>
                     (case file_exit env fs_file w3 of
                        (Some e, w4) \<Rightarrow> (Some e, w4)
                      | (None, w4) \<Rightarrow>
                         (case r of
                            Some e \<Rightarrow> (Some e, w4)
                          | None \<Rightarrow> invalidate_cache env self w4))))))"

text \<open>
  \<open>_exists\<close>. \<open>except DatasetError\<close> catches \<open>DatasetError\<close> and its subclasses (the
  constructor \<open>DatasetError\<close> of \<open>error\<close> stands for all of them); any other exception
  propagates.
\<close>

definition exists ::
  "('w, 'fs, 'h, 'x, 'y) collaborators \<Rightarrow> 'fs SVMLightDataset \<Rightarrow> 'w \<Rightarrow> (error + bool) \<times> 'w" where
  "exists env self w =
     (case get_load_path env (self_filepath self) (self_version self) (self_fs self) w of
        (Inl (DatasetError m), w1) \<Rightarrow> (Inr False, w1)
      | (Inl e, w1) \<Rightarrow> (Inl e, w1)
      | (Inr p, w1) \<Rightarrow>
         (let load_path = get_filepath_str env p (self_protocol self)
          in fs_exists env (self_fs self) load_path w1))"

definition release ::
  "('w, 'fs, 'h, 'x, 'y) collaborators \<Rightarrow> 'fs SVMLightDataset \<Rightarrow> 'w \<Rightarrow> error option \<times> 'w" where
  "release env self w =
     (case super_release env w of
        (Some e, w1) \<Rightarrow> (Some e, w1)
      | (None, w1) \<Rightarrow> invalidate_cache env self w1)"

section \<open>Observing the calls\<close>

text \<open>
  What the adapter does to its collaborators is observed through a log: every call that
  acts on the world is recorded with its arguments and its outcome. \<open>logged env\<close> behaves
  as \<open>env\<close> does and appends to the log carried beside the world.
\<close>

datatype ('fs, 'h) event =
    EvFilesystem string pydict
  | EvGetLoadPath "error + pure_path"
  | EvGetSavePath "error + pure_path"
  | EvOpen 'fs string pydict "error + 'h"
  | EvLoadSvm 'h pydict "error option"
  | EvDumpSvm 'h pydict "error option"
  | EvExit 'h "error option"
  | EvExists 'fs string "error + bool"
  | EvInvalidate 'fs string "error option"
  | EvRelease

definition raised :: "error + 'a \<Rightarrow> error option" where
  "raised r = (case r of Inl e \<Rightarrow> Some e | Inr _ \<Rightarrow> None)"

definition logged ::
  "('w, 'fs, 'h, 'x, 'y) collaborators \<Rightarrow>
   ('w \<times> ('fs, 'h) event list, 'fs, 'h, 'x, 'y) collaborators" where
  "logged env =
     \<lparr> get_protocol_and_path = get_protocol_and_path env,
       fsspec_filesystem = (\<lambda>protocol kwargs (w, l).
         case fsspec_filesystem env protocol kwargs w of
           (r, w') \<Rightarrow> (r, (w', l @ [EvFilesystem protocol kwargs]))),
       get_filepath_str = get_filepath_str env,
       get_load_path = (\<lambda>p v fs (w, l).
         case get_load_path env p v fs w of
           (r, w') \<Rightarrow> (r, (w', l @ [EvGetLoadPath r]))),
       get_save_path = (\<lambda>p v fs (w, l).
         case get_save_path env p v fs w of
           (r, w') \<Rightarrow> (r, (w', l @ [EvGetSavePath r]))),
       fs_open = (\<lambda>fs path args (w, l).
         case fs_open env fs path args w of
           (r, w') \<Rightarrow> (r, (w', l @ [EvOpen fs path args r]))),
       file_exit = (\<lambda>h (w, l).
         case file_exit env h w of
           (r, w') \<Rightarrow> (r, (w', l @ [EvExit h r]))),
       load_svmlight_file = (\<lambda>h args (w, l).
         case load_svmlight_file env h args w of
           (r, w') \<Rightarrow> (r, (w', l @ [EvLoadSvm h args (raised r)]))),
       dump_svmlight_file = (\<lambda>x y h args (w, l).
         case dump_svmlight_file env x y h args w of
           (r, w') \<Rightarrow> (r, (w', l @ [EvDumpSvm h args r]))),
       fs_exists = (\<lambda>fs path (w, l).
         case fs_exists env fs path w of
           (r, w') \<Rightarrow> (r, (w', l @ [EvExists fs path r]))),
       fs_invalidate_cache = (\<lambda>fs path (w, l).
         case fs_invalidate_cache env fs path w of
           (r, w') \<Rightarrow> (r, (w', l @ [EvInvalidate fs path r]))),
       super_release = (\<lambda>(w, l).
         case super_release env w of
           (r, w') \<Rightarrow> (r, (w', l @ [EvRelease]))) \<rparr>"

text \<open>The log an operation leaves when it starts on an empty one.\<close>

definition log_of :: "'r \<times> 'w \<times> ('fs, 'h) event list \<Rightarrow> ('fs, 'h) event list" where
  "log_of out = snd (snd out)"

text \<open>
  The file objects that are open at the end of a log: those an \<open>open\<close> returned and whose
  \<open>__exit__\<close> has not run since.
\<close>

fun track :: "('fs, 'h) event \<Rightarrow> 'h list \<Rightarrow> 'h list" where
  "track (EvOpen fs path args (Inr h)) hs = h # hs"
| "track (EvExit h r) hs = remove1 h hs"
| "track _ hs = hs"

definition open_files :: "('fs, 'h) event list \<Rightarrow> 'h list" where
  "open_files l = fold track l []"

text \<open>The paths at which a log opens a file, and those whose cache it invalidates.\<close>

fun opened_paths :: "('fs, 'h) event list \<Rightarrow> string list" where
  "opened_paths [] = []"
| "opened_paths (EvOpen fs path args r # l) = path # opened_paths l"
| "opened_paths (_ # l) = opened_paths l"

fun invalidated_paths :: "('fs, 'h) event list \<Rightarrow> string list" where
  "invalidated_paths [] = []"
| "invalidated_paths (EvInvalidate fs path r # l) = path # invalidated_paths l"
| "invalidated_paths (_ # l) = invalidated_paths l"

text \<open>The keyword arguments with which a log constructs filesystems.\<close>

fun filesystem_calls :: "('fs, 'h) event list \<Rightarrow> (string \<times> pydict) list" where
  "filesystem_calls [] = []"
| "filesystem_calls (EvFilesystem protocol kwargs # l) = (protocol, kwargs) # filesystem_calls l"
| "filesystem_calls (_ # l) = filesystem_calls l"

section \<open>An in-memory instance of the collaborators\<close>

text \<open>
  A small instance on which the operations can be run: the world is the list of the paths
  that hold a file, the latest first; the filesystem object is its protocol, an open file
  object is its path. A filepath \<open>s3://...\<close> has the protocol \<open>s3\<close>, any other the local
  protocol \<open>file\<close>. The encoder rejects a matrix and a label vector of different lengths.
\<close>

definition path_name :: "string \<Rightarrow> string" where
  "path_name s = rev (takeWhile (\<lambda>c. c \<noteq> CHR ''/'') (rev s))"

fun as_posix :: "pure_path \<Rightarrow> string" where
  "as_posix (PurePosixPath s) = s"

text \<open>
  Modelled from the spec: the versioned path resolver (\<open>_get_load_path\<close> and
  \<open>_get_save_path\<close> of kedro's \<open>AbstractVersionedDataset\<close>) is not in this repository. It
  "maps a logical dataset path plus an optional version token to a concrete timestamped
  storage path, for both load and save": without a version selector the path is the logical
  path; with one it is \<open>filepath/version/name\<close>, the version being the one requested, or
  else, for load, the latest one saved (a "no such version/dataset" error when there is
  none) and, for save, a newly generated token.
\<close>

fun versioned_path :: "pure_path \<Rightarrow> string \<Rightarrow> pure_path" where
  "versioned_path (PurePosixPath s) t = PurePosixPath (s @ ''/'' @ t @ ''/'' @ path_name s)"

fun is_version_of :: "pure_path \<Rightarrow> string \<Rightarrow> bool" where
  "is_version_of (PurePosixPath s) q =
     (length s + length (path_name s) + 2 < length q \<and>
      take (length s + 1) q = s @ ''/'' \<and>
      drop (length q - (length (path_name s) + 1)) q = ''/'' @ path_name s)"

definition mem_load_path ::
  "pure_path \<Rightarrow> version option \<Rightarrow> string \<Rightarrow> string list \<Rightarrow> (error + pure_path) \<times> string list" where
  "mem_load_path p v fs w =
     (case v of
        None \<Rightarrow> (Inr p, w)
      | Some ver \<Rightarrow>
         (case v_load ver of
            Some t \<Rightarrow> (Inr (versioned_path p t), w)
          | None \<Rightarrow>
             (case find (is_version_of p) w of
                Some q \<Rightarrow> (Inr (PurePosixPath q), w)
              | None \<Rightarrow> (Inl (DatasetError ''Did not find any versions''), w))))"

definition mem_save_path ::
  "pure_path \<Rightarrow> version option \<Rightarrow> string \<Rightarrow> string list \<Rightarrow> (error + pure_path) \<times> string list" where
  "mem_save_path p v fs w =
     (case v of
        None \<Rightarrow> (Inr p, w)
      | Some ver \<Rightarrow>
         (case v_save ver of
            Some t \<Rightarrow> (Inr (versioned_path p t), w)
          | None \<Rightarrow> (Inr (versioned_path p ''2024-01-01T00.00.00.000Z''), w)))"

definition mem_protocol_and_path :: "string \<Rightarrow> version option \<Rightarrow> error + (string \<times> string)" where
  "mem_protocol_and_path filepath v =
     (if take 5 filepath = ''s3://'' then Inr (''s3'', drop 5 filepath) else Inr (''file'', filepath))"

definition mem_env :: "(string list, string, string, int list list, int list) collaborators" where
  "mem_env =
     \<lparr> get_protocol_and_path = mem_protocol_and_path,
       fsspec_filesystem = (\<lambda>protocol kwargs w. (Inr protocol, w)),
       get_filepath_str = (\<lambda>p protocol. as_posix p),
       get_load_path = mem_load_path,
       get_save_path = mem_save_path,
       fs_open = (\<lambda>fs path args w. (Inr path, w)),
       file_exit = (\<lambda>h w. (None, w)),
       load_svmlight_file = (\<lambda>h args w.
         if h \<in> set w then (Inr ([], []), w) else (Inl (OtherError ''no such file''), w)),
       dump_svmlight_file = (\<lambda>x y h args w.
         if length x = length y then (None, h # w) else (Some (OtherError ''shape''), w)),
       fs_exists = (\<lambda>fs path w. (Inr (path \<in> set w), w)),
       fs_invalidate_cache = (\<lambda>fs path w. (None, w)),
       super_release = (\<lambda>w. (None, w)) \<rparr>"

text \<open>
  Adapters on the in-memory instance: \<open>example_dataset\<close> is what
  \<open>SVMLightDataset(filepath="data/x.svm", save_args={"zero_based": False})\<close> constructs,
  \<open>example_versioned\<close> the same with \<open>version=Version(None, "v1")\<close>. \<open>bad_data\<close> has a
  label vector shorter than its matrix.
\<close>

definition example_dataset :: "string SVMLightDataset" where
  "example_dataset =
     \<lparr> self_protocol = ''file'', self_fs = ''file'', self_metadata = None,
       self_filepath = PurePosixPath ''data/x.svm'', self_version = None,
       self_load_args = [], self_save_args = [(''zero_based'', PBool False)],
       self_fs_open_args_load = [(''mode'', PStr ''rb'')],
       self_fs_open_args_save = [(''mode'', PStr ''wb'')] \<rparr>"

definition example_versioned :: "string SVMLightDataset" where
  "example_versioned =
     example_dataset \<lparr> self_version := Some \<lparr> v_load = None, v_save = Some ''v1'' \<rparr> \<rparr>"

definition example_data :: "int list list \<times> int list" where
  "example_data = ([[0, 1], [2, 3]], [7, 3])"

definition bad_data :: "int list list \<times> int list" where
  "bad_data = ([[0, 1], [2, 3]], [7])"

section \<open>Filesystems that cache their listings\<close>





section \<open>The object store\<close>

text \<open>
  Python passes dictionaries by reference, and \<open>pop\<close> and \<open>setdefault\<close> change the object
  they are called on. To say what \<open>__init__\<close> does to the objects of its caller, objects
  live in a store: a list of dictionaries, the address of an object being its index. A
  value is \<open>None\<close>, a boolean, an integer, a string or a reference to a dictionary.
\<close>

type_synonym addr = nat

datatype oval = ONone | OBool bool | OInt int | OStr string | ORef addr

type_synonym odict = "(string \<times> oval) list"

type_synonym store = "odict list"

definition alloc :: "odict \<Rightarrow> store \<Rightarrow> addr \<times> store" where
  "alloc d s = (length s, s @ [d])"

fun truthy_obj :: "store \<Rightarrow> oval \<Rightarrow> bool" where
  "truthy_obj s ONone = False"
| "truthy_obj s (OBool b) = b"
| "truthy_obj s (OInt i) = (i \<noteq> 0)"
| "truthy_obj s (OStr t) = (t \<noteq> [])"
| "truthy_obj s (ORef a) = (a < length s \<and> s ! a \<noteq> [])"

text \<open>
  \<open>copy.deepcopy(x, memo)\<close>. For a dictionary not yet in the memo it creates the empty
  copy \<open>y\<close>, enters it in the memo, and stores a deep copy of every value under its key in
  \<open>y\<close>; a dictionary already in the memo is answered by its copy, so that shared and cyclic
  structure is kept. Other values are returned as they are. The first argument bounds
  the depth of the recursion: at depth zero, as on a reference to no object, the copy
  fails (\<open>None\<close>), leaving what it has allocated so far.
\<close>

fun deepcopy_obj ::
    "nat \<Rightarrow> oval \<Rightarrow> (addr \<times> addr) list \<Rightarrow> store \<Rightarrow> oval option \<times> (addr \<times> addr) list \<times> store"
  and deepcopy_items ::
    "nat \<Rightarrow> odict \<Rightarrow> addr \<Rightarrow> (addr \<times> addr) list \<Rightarrow> store \<Rightarrow> bool \<times> (addr \<times> addr) list \<times> store"
where
  "deepcopy_obj 0 v memo s = (None, memo, s)"
| "deepcopy_obj (Suc n) (ORef a) memo s =
     (case map_of memo a of
        Some y \<Rightarrow> (Some (ORef y), memo, s)
      | None \<Rightarrow>
         (if a < length s
          then (case deepcopy_items n (s ! a) (length s) ((a, length s) # memo) (s @ [[]]) of
                  (ok, memo', s') \<Rightarrow> (if ok then Some (ORef (length s)) else None, memo', s'))
          else (None, memo, s)))"
| "deepcopy_obj (Suc n) v memo s = (Some v, memo, s)"
| "deepcopy_items n [] y memo s = (True, memo, s)"
| "deepcopy_items n ((k, v) # kvs) y memo s =
     (case deepcopy_obj n v memo s of
        (None, memo', s') \<Rightarrow> (False, memo', s')
      | (Some v', memo', s') \<Rightarrow>
          deepcopy_items n kvs y memo' (s'[y := AList.update k v' (s' ! y)]))"

text \<open>\<open>deepcopy(x) or {}\<close>, for an argument that is \<open>None\<close> or a dictionary.\<close>

definition copy_or_empty :: "nat \<Rightarrow> oval \<Rightarrow> store \<Rightarrow> (error + addr) \<times> store" where
  "copy_or_empty limit x s =
     (case deepcopy_obj limit x [] s of
        (None, memo, s1) \<Rightarrow> (Inl (OtherError ''RecursionError''), s1)
      | (Some c, memo, s1) \<Rightarrow>
         (if truthy_obj s1 c
          then (case c of
                  ORef a \<Rightarrow> (Inr a, s1)
                | _ \<Rightarrow> (Inl (TypeError ''not a dictionary''), s1))
          else (case alloc [] s1 of (a, s2) \<Rightarrow> (Inr a, s2))))"

text \<open>\<open>d.pop(k, {})\<close> on the object at \<open>f\<close>; the default \<open>{}\<close> is a new object.\<close>

definition store_pop :: "addr \<Rightarrow> string \<Rightarrow> store \<Rightarrow> oval \<times> store" where
  "store_pop f k s =
     (case alloc [] s of
        (d, s1) \<Rightarrow>
         (case dict_pop k (ORef d) (s1 ! f) of
            (v, rest) \<Rightarrow> (v, s1[f := rest])))"

text \<open>\<open>d.setdefault(k, v)\<close> on the object at \<open>f\<close>.\<close>

definition store_setdefault :: "addr \<Rightarrow> string \<Rightarrow> oval \<Rightarrow> store \<Rightarrow> store" where
  "store_setdefault f k v s = s[f := dict_setdefault k v (s ! f)]"

text \<open>
  \<open>{**dflt, **(x or {})}\<close>: a new dictionary; \<open>x\<close> is read, and must be a dictionary when
  it is truthy.
\<close>

definition store_merge :: "odict \<Rightarrow> oval \<Rightarrow> store \<Rightarrow> (error + addr) \<times> store" where
  "store_merge dflt x s =
     (if truthy_obj s x
      then (case x of
              ORef a \<Rightarrow> (case alloc (dict_merge dflt (s ! a)) s of (m, s1) \<Rightarrow> (Inr m, s1))
            | _ \<Rightarrow> (Inl (TypeError ''argument after ** must be a mapping''), s))
      else (case alloc [] s of
              (e, s1) \<Rightarrow> (case alloc (dict_merge dflt []) s1 of (m, s2) \<Rightarrow> (Inr m, s2))))"

text \<open>The dictionaries an instance refers to, by address.\<close>

record instance_refs =
  ref_fs_args :: addr
  ref_credentials :: addr
  ref_load_args :: addr
  ref_save_args :: addr
  ref_fs_open_args_load :: addr
  ref_fs_open_args_save :: addr

text \<open>
  \<open>__init__\<close> on the store, for arguments that are \<open>None\<close> or dictionaries. \<open>limit\<close> is the
  recursion limit, \<open>resolved\<close> what \<open>get_protocol_and_path\<close> returned or raised; \<open>mkfs\<close>
  stands for \<open>fsspec.filesystem\<close>, which receives its keyword arguments in a new dictionary
  and is taken not to write to the store.
\<close>

definition init_store ::
  "nat \<Rightarrow> error + string \<times> string \<Rightarrow> (string \<Rightarrow> odict \<Rightarrow> error option) \<Rightarrow>
   oval \<Rightarrow> oval \<Rightarrow> oval \<Rightarrow> oval \<Rightarrow> store \<Rightarrow> (error + instance_refs) \<times> store" where
  "init_store limit resolved mkfs load_args save_args credentials fs_args s =
     (case copy_or_empty limit fs_args s of
        (Inl e, s1) \<Rightarrow> (Inl e, s1)
      | (Inr f, s1) \<Rightarrow>
     (case store_pop f ''open_args_load'' s1 of
        (open_load, s2) \<Rightarrow>
     (case store_pop f ''open_args_save'' s2 of
        (open_save, s3) \<Rightarrow>
     (case copy_or_empty limit credentials s3 of
        (Inl e, s4) \<Rightarrow> (Inl e, s4)
      | (Inr c, s4) \<Rightarrow>
     (case resolved of
        Inl e \<Rightarrow> (Inl e, s4)
      | Inr (protocol, path) \<Rightarrow>
     (let s5 = (if protocol = ''file''
                then store_setdefault f ''auto_mkdir'' (OBool True) s4
                else s4)
      in (case call_kwargs (s5 ! c) (s5 ! f) of
            Inl e \<Rightarrow> (Inl e, s5)
          | Inr kwargs \<Rightarrow>
     (case alloc kwargs s5 of
        (kw, s6) \<Rightarrow>
     (case mkfs protocol kwargs of
        Some e \<Rightarrow> (Inl e, s6)
      | None \<Rightarrow>
     (case store_merge [] load_args s6 of
        (Inl e, s7) \<Rightarrow> (Inl e, s7)
      | (Inr la, s7) \<Rightarrow>
     (case store_merge [] save_args s7 of
        (Inl e, s8) \<Rightarrow> (Inl e, s8)
      | (Inr sa, s8) \<Rightarrow>
     (case store_merge [(''mode'', OStr ''rb'')] open_load s8 of
        (Inl e, s9) \<Rightarrow> (Inl e, s9)
      | (Inr ol, s9) \<Rightarrow>
     (case store_merge [(''mode'', OStr ''wb'')] open_save s9 of
        (Inl e, s10) \<Rightarrow> (Inl e, s10)
      | (Inr os, s10) \<Rightarrow>
          (Inr \<lparr> ref_fs_args = f, ref_credentials = c, ref_load_args = la,
                 ref_save_args = sa, ref_fs_open_args_load = ol,
                 ref_fs_open_args_save = os \<rparr>, s10))))))))))))))"

text \<open>
  A store of a caller: at address 0 the dictionary
  \<open>{"project": "my-project", "open_args_load": {"mode": "r"}}\<close>, whose sub-map is at address
  1, and at address 2 the credentials \<open>{"token": None}\<close>.
\<close>

definition caller_store :: store where
  "caller_store =
     [[(''project'', OStr ''my-project''), (''open_args_load'', ORef 1)],
      [(''mode'', OStr ''r'')],
      [(''token'', ONone)]]"

section \<open>What the caller supplied\<close>

text \<open>
  The parts of \<open>fs_args\<close> the properties of the constructor speak of: the value stored under
  a reserved key (an empty dictionary when the key is absent), the sub-map a caller
  supplied under it (empty when the value is absent or falsy), the entries that are left
  when the two reserved keys are taken out, and the keyword arguments the filesystem
  constructor is expected to receive.
\<close>

definition popped :: "pydict option \<Rightarrow> string \<Rightarrow> pyval" where
  "popped fa k = (case map_of (or_empty fa) k of None \<Rightarrow> PDict [] | Some x \<Rightarrow> x)"

definition caller_open_args :: "pydict option \<Rightarrow> string \<Rightarrow> pydict" where
  "caller_open_args fs_args k =
     (case map_of (or_empty fs_args) k of Some (PDict d) \<Rightarrow> d | _ \<Rightarrow> [])"

definition remaining_fs_args :: "pydict option \<Rightarrow> pydict" where
  "remaining_fs_args fs_args =
     filter (\<lambda>(k, v). k \<noteq> ''open_args_load'' \<and> k \<noteq> ''open_args_save'') (or_empty fs_args)"

definition constructor_kwargs :: "string \<Rightarrow> pydict option \<Rightarrow> pydict option \<Rightarrow> pydict" where
  "constructor_kwargs protocol credentials fs_args =
     or_empty credentials @
     (if protocol = ''file''
      then dict_setdefault ''auto_mkdir'' (PBool True) (remaining_fs_args fs_args)
      else remaining_fs_args fs_args)"

text \<open>
  Further adapters on the in-memory instance: \<open>text_dataset\<close> is constructed with
  \<open>fs_args={"open_args_load": {"mode": "r", "encoding": "utf-8"}}\<close>.
\<close>

definition text_fs_args :: pydict where
  "text_fs_args =
     [(''open_args_load'', PDict [(''mode'', PStr ''r''), (''encoding'', PStr ''utf-8'')])]"

definition text_dataset :: "string SVMLightDataset" where
  "text_dataset =
     example_dataset \<lparr> self_fs_open_args_load := [(''mode'', PStr ''r''), (''encoding'', PStr ''utf-8'')] \<rparr>"

definition project_fs_args :: pydict where
  "project_fs_args =
     [(''project'', PStr ''my-project''), (''open_args_load'', PDict [(''mode'', PStr ''r'')])]"

section \<open>Runs on the in-memory instance\<close>

lemma example_dataset_init:
  "SVMLightDataset_init mem_env ''data/x.svm'' None (Some [(''zero_based'', PBool False)]) None None None None []
     = (Inr example_dataset, [])"
  by (simp add: SVMLightDataset_init_def mem_env_def mem_protocol_and_path_def or_empty_def deepcopy_def dict_pop_def
      dict_setdefault_def call_kwargs_def DEFAULT_FS_ARGS_def dict_get_def py_or_def
      dict_merge_def DEFAULT_LOAD_ARGS_def DEFAULT_SAVE_ARGS_def example_dataset_def)

lemma example_versioned_init:
  "SVMLightDataset_init mem_env ''data/x.svm'' None (Some [(''zero_based'', PBool False)])
     (Some \<lparr> v_load = None, v_save = Some ''v1'' \<rparr>) None None None []
     = (Inr example_versioned, [])"
  by (simp add: SVMLightDataset_init_def mem_env_def mem_protocol_and_path_def or_empty_def deepcopy_def dict_pop_def
      dict_setdefault_def call_kwargs_def DEFAULT_FS_ARGS_def dict_get_def py_or_def
      dict_merge_def DEFAULT_LOAD_ARGS_def DEFAULT_SAVE_ARGS_def example_dataset_def example_versioned_def)

lemma save_versioned_run:
  "save (logged mem_env) example_versioned example_data ([], []) =
     (None, [''data/x.svm/v1/x.svm''],
      [EvGetSavePath (Inr (PurePosixPath ''data/x.svm/v1/x.svm'')),
       EvOpen ''file'' ''data/x.svm/v1/x.svm'' [(''mode'', PStr ''wb'')] (Inr ''data/x.svm/v1/x.svm''),
       EvDumpSvm ''data/x.svm/v1/x.svm'' [(''zero_based'', PBool False)] None,
       EvExit ''data/x.svm/v1/x.svm'' None,
       EvInvalidate ''file'' ''data/x.svm'' None])"
  by (simp add: save_def invalidate_cache_def logged_def mem_env_def mem_save_path_def
      example_versioned_def example_dataset_def example_data_def path_name_def Let_def)

section \<open>The calls of load and save\<close>

text \<open>
  The log of \<open>load\<close> and of \<open>save\<close> has one of a few shapes, one for each way out of the
  operation.
\<close>

lemma load_log_cases:
  "log_of (load (logged env) self (w, [])) = l \<Longrightarrow>
     (\<exists>e. l = [EvGetLoadPath (Inl e)])
   \<or> (\<exists>p e. l = [EvGetLoadPath (Inr p),
                 EvOpen (self_fs self) (get_filepath_str env p (self_protocol self)) (self_fs_open_args_load self) (Inl e)])
   \<or> (\<exists>p h r x. l = [EvGetLoadPath (Inr p),
                 EvOpen (self_fs self) (get_filepath_str env p (self_protocol self)) (self_fs_open_args_load self) (Inr h),
                 EvLoadSvm h (self_load_args self) r, EvExit h x])"
  by (auto simp: load_def logged_def log_of_def Let_def split: prod.splits sum.splits option.splits)

lemma save_out_cases:
  "save (logged env) self data (w, []) = (res, w', l) \<Longrightarrow>
     (\<exists>e. res = Some e \<and> l = [EvGetSavePath (Inl e)])
   \<or> (\<exists>p e. res = Some e \<and> l = [EvGetSavePath (Inr p),
                 EvOpen (self_fs self) (get_filepath_str env p (self_protocol self)) (self_fs_open_args_save self) (Inl e)])
   \<or> (\<exists>p h r e. res = Some e \<and> l = [EvGetSavePath (Inr p),
                 EvOpen (self_fs self) (get_filepath_str env p (self_protocol self)) (self_fs_open_args_save self) (Inr h),
                 EvDumpSvm h (self_save_args self) r, EvExit h (Some e)])
   \<or> (\<exists>p h e. res = Some e \<and> l = [EvGetSavePath (Inr p),
                 EvOpen (self_fs self) (get_filepath_str env p (self_protocol self)) (self_fs_open_args_save self) (Inr h),
                 EvDumpSvm h (self_save_args self) (Some e), EvExit h None])
   \<or> (\<exists>p h. l = [EvGetSavePath (Inr p),
                 EvOpen (self_fs self) (get_filepath_str env p (self_protocol self)) (self_fs_open_args_save self) (Inr h),
                 EvDumpSvm h (self_save_args self) None, EvExit h None,
                 EvInvalidate (self_fs self) (get_filepath_str env (self_filepath self) (self_protocol self)) res])"
  by (auto simp: save_def invalidate_cache_def logged_def Let_def split: prod.splits sum.splits option.splits)

lemma save_run_cases:
  "(\<exists>e. fst (save (logged env) self data (w, [])) = Some e \<and> log_of (save (logged env) self data (w, [])) = [EvGetSavePath (Inl e)])
   \<or> (\<exists>p e. fst (save (logged env) self data (w, [])) = Some e \<and> log_of (save (logged env) self data (w, [])) = [EvGetSavePath (Inr p),
                 EvOpen (self_fs self) (get_filepath_str env p (self_protocol self)) (self_fs_open_args_save self) (Inl e)])
   \<or> (\<exists>p h r e. fst (save (logged env) self data (w, [])) = Some e \<and> log_of (save (logged env) self data (w, [])) = [EvGetSavePath (Inr p),
                 EvOpen (self_fs self) (get_filepath_str env p (self_protocol self)) (self_fs_open_args_save self) (Inr h),
                 EvDumpSvm h (self_save_args self) r, EvExit h (Some e)])
   \<or> (\<exists>p h e. fst (save (logged env) self data (w, [])) = Some e \<and> log_of (save (logged env) self data (w, [])) = [EvGetSavePath (Inr p),
                 EvOpen (self_fs self) (get_filepath_str env p (self_protocol self)) (self_fs_open_args_save self) (Inr h),
                 EvDumpSvm h (self_save_args self) (Some e), EvExit h None])
   \<or> (\<exists>p h. log_of (save (logged env) self data (w, [])) = [EvGetSavePath (Inr p),
                 EvOpen (self_fs self) (get_filepath_str env p (self_protocol self)) (self_fs_open_args_save self) (Inr h),
                 EvDumpSvm h (self_save_args self) None, EvExit h None,
                 EvInvalidate (self_fs self) (get_filepath_str env (self_filepath self) (self_protocol self))
                   (fst (save (logged env) self data (w, [])))])"
  using save_out_cases [of env self data w "fst (save (logged env) self data (w, []))"
      "fst (snd (save (logged env) self data (w, [])))" "log_of (save (logged env) self data (w, []))"]
  by (simp add: log_of_def)

text \<open>
  Logging changes nothing: an operation on \<open>logged env\<close> returns what it returns on \<open>env\<close>
  and leaves the same world.
\<close>

lemma logged_load:
  "fst (load (logged env) self (w, l)) = fst (load env self w) \<and>
   fst (snd (load (logged env) self (w, l))) = snd (load env self w)"
  by (auto simp: load_def logged_def Let_def split: prod.splits sum.splits option.splits)

lemma logged_save:
  "fst (save (logged env) self data (w, l)) = fst (save env self data w) \<and>
   fst (snd (save (logged env) self data (w, l))) = snd (save env self data w)"
  by (auto simp: save_def invalidate_cache_def logged_def Let_def split: prod.splits sum.splits option.splits)

section \<open>Properties of the operations\<close>

text \<open>
  C2 (as stated). After a successful \<open>save\<close> the path whose cache is invalidated is the path
  that was written. This fails for a versioned adapter: the file is written at
  \<open>data/x.svm/v1/x.svm\<close> and the cache is invalidated for \<open>data/x.svm\<close>.
\<close>

theorem save_invalidates_written_path_counterexample:
  "fst (save (logged mem_env) example_versioned example_data ([], [])) = None \<and>
   invalidated_paths (log_of (save (logged mem_env) example_versioned example_data ([], [])))
     \<noteq> opened_paths (log_of (save (logged mem_env) example_versioned example_data ([], [])))"
  by (simp add: save_versioned_run log_of_def)

text \<open>
  C2 (amended). A successful \<open>save\<close> resolves the save path, opens it, encodes, closes the
  file, and then, as its last call, invalidates the cache for the logical path
  \<open>get_filepath_str(self._filepath, self._protocol)\<close>; this is the only path it invalidates, and
  it is the path written whenever the resolver returns the logical path as the save path.
\<close>

theorem save_invalidates_logical_path:
  assumes "fst (save (logged env) self data (w, [])) = None"
  shows "\<exists>p h. log_of (save (logged env) self data (w, [])) =
           [EvGetSavePath (Inr p),
            EvOpen (self_fs self) (get_filepath_str env p (self_protocol self))
              (self_fs_open_args_save self) (Inr h),
            EvDumpSvm h (self_save_args self) None,
            EvExit h None,
            EvInvalidate (self_fs self)
              (get_filepath_str env (self_filepath self) (self_protocol self)) None]
         \<and> invalidated_paths (log_of (save (logged env) self data (w, []))) =
             [get_filepath_str env (self_filepath self) (self_protocol self)]
         \<and> (p = self_filepath self \<longrightarrow>
              invalidated_paths (log_of (save (logged env) self data (w, []))) =
              opened_paths (log_of (save (logged env) self data (w, []))))"
  using save_run_cases [of env self data w] assms by auto

theorem save_invalidates_logical_path_witness:
  "fst (save (logged mem_env) example_dataset example_data ([], [])) = None \<and>
   log_of (save (logged mem_env) example_dataset example_data ([], [])) =
     [EvGetSavePath (Inr (PurePosixPath ''data/x.svm'')),
      EvOpen ''file'' ''data/x.svm'' [(''mode'', PStr ''wb'')] (Inr ''data/x.svm''),
      EvDumpSvm ''data/x.svm'' [(''zero_based'', PBool False)] None,
      EvExit ''data/x.svm'' None,
      EvInvalidate ''file'' ''data/x.svm'' None] \<and>
   invalidated_paths (log_of (save (logged mem_env) example_dataset example_data ([], []))) = [''data/x.svm'']"
proof -
  have run: "save (logged mem_env) example_dataset example_data ([], []) =
     (None, [''data/x.svm''],
      [EvGetSavePath (Inr (PurePosixPath ''data/x.svm'')),
       EvOpen ''file'' ''data/x.svm'' [(''mode'', PStr ''wb'')] (Inr ''data/x.svm''),
       EvDumpSvm ''data/x.svm'' [(''zero_based'', PBool False)] None,
       EvExit ''data/x.svm'' None,
       EvInvalidate ''file'' ''data/x.svm'' None])"
    by (simp add: save_def invalidate_cache_def logged_def mem_env_def mem_save_path_def
        example_dataset_def example_data_def Let_def)
  then have ok: "fst (save (logged mem_env) example_dataset example_data ([], [])) = None"
    by simp
  from save_invalidates_logical_path [OF ok] run show ?thesis
    by (simp add: log_of_def)
qed

text \<open>
  C3. \<open>_exists\<close> returns false, and raises nothing, when the resolution of the load path
  raises \<open>DatasetError\<close>; when the resolution succeeds it is the existence check of the
  filesystem on the resolved load path. On the in-memory instance, an adapter with nothing
  saved reports false.
\<close>

theorem exists_resolution:
  "(get_load_path env (self_filepath self) (self_version self) (self_fs self) w
      = (Inl (DatasetError m), w1) \<longrightarrow> exists env self w = (Inr False, w1)) \<and>
   (get_load_path env (self_filepath self) (self_version self) (self_fs self) w
      = (Inr p, w1) \<longrightarrow>
    exists env self w = fs_exists env (self_fs self) (get_filepath_str env p (self_protocol self)) w1)"
  by (simp add: exists_def)

theorem exists_resolution_witness:
  "get_load_path mem_env (self_filepath example_versioned) (self_version example_versioned)
     (self_fs example_versioned) [] = (Inl (DatasetError ''Did not find any versions''), []) \<and>
   exists mem_env example_versioned [] = (Inr False, []) \<and>
   get_load_path mem_env (self_filepath example_dataset) (self_version example_dataset)
     (self_fs example_dataset) [] = (Inr (PurePosixPath ''data/x.svm''), []) \<and>
   exists mem_env example_dataset [] = (Inr False, []) \<and>
   exists mem_env example_dataset [''data/x.svm''] = (Inr True, [''data/x.svm''])"
proof -
  have a: "get_load_path mem_env (self_filepath example_versioned) (self_version example_versioned)
     (self_fs example_versioned) [] = (Inl (DatasetError ''Did not find any versions''), [])"
    by (simp add: mem_env_def mem_load_path_def example_versioned_def example_dataset_def)
  have b: "get_load_path mem_env (self_filepath example_dataset) (self_version example_dataset)
     (self_fs example_dataset) w = (Inr (PurePosixPath ''data/x.svm''), w)" for w
    by (simp add: mem_env_def mem_load_path_def example_dataset_def)
  have e: "fs_exists mem_env (self_fs example_dataset)
        (get_filepath_str mem_env (PurePosixPath ''data/x.svm'') (self_protocol example_dataset)) w
        = (Inr (''data/x.svm'' \<in> set w), w)" for w
    by (simp add: mem_env_def)
  from exists_resolution [of mem_env example_versioned "[]" "''Did not find any versions''" "[]"]
       exists_resolution [of mem_env example_dataset "[]" _ "[]" "PurePosixPath ''data/x.svm''"]
       exists_resolution [of mem_env example_dataset "[''data/x.svm'']" _ "[''data/x.svm'']" "PurePosixPath ''data/x.svm''"]
       a b e
  show ?thesis by simp
qed

text \<open>
  C4. When \<open>load\<close> or \<open>save\<close> returns or raises, no file object that \<open>open\<close> returned is
  left open: the \<open>__exit__\<close> of each has run, whether the codec returned or raised.
\<close>

theorem streams_closed:
  "open_files (log_of (load (logged env) self (w, []))) = [] \<and>
   open_files (log_of (save (logged env) self data (w, []))) = []"
proof
  show "open_files (log_of (load (logged env) self (w, []))) = []"
    using load_log_cases [OF refl, of env self w] by (auto simp: open_files_def)
  show "open_files (log_of (save (logged env) self data (w, []))) = []"
    using save_run_cases [of env self data w] by (auto simp: open_files_def)
qed




text \<open>
  C10. When the encoder raises in \<open>save\<close>, \<open>save\<close> raises (the exception of the encoder,
  when closing the file raises nothing) and no cache is invalidated.
\<close>

theorem failed_encode_skips_invalidation:
  assumes "EvDumpSvm h a (Some e) \<in> set (log_of (save (logged env) self data (w, [])))"
  shows "(\<exists>e'. fst (save (logged env) self data (w, [])) = Some e')
       \<and> (EvExit h None \<in> set (log_of (save (logged env) self data (w, []))) \<longrightarrow>
            fst (save (logged env) self data (w, [])) = Some e)
       \<and> invalidated_paths (log_of (save (logged env) self data (w, []))) = []"
  using save_run_cases [of env self data w] assms by auto

theorem failed_encode_skips_invalidation_witness:
  "EvDumpSvm ''data/x.svm'' [(''zero_based'', PBool False)] (Some (OtherError ''shape''))
     \<in> set (log_of (save (logged mem_env) example_dataset bad_data ([], []))) \<and>
   fst (save (logged mem_env) example_dataset bad_data ([], [])) = Some (OtherError ''shape'') \<and>
   invalidated_paths (log_of (save (logged mem_env) example_dataset bad_data ([], []))) = []"
proof -
  have run: "save (logged mem_env) example_dataset bad_data ([], []) =
     (Some (OtherError ''shape''), [],
      [EvGetSavePath (Inr (PurePosixPath ''data/x.svm'')),
       EvOpen ''file'' ''data/x.svm'' [(''mode'', PStr ''wb'')] (Inr ''data/x.svm''),
       EvDumpSvm ''data/x.svm'' [(''zero_based'', PBool False)] (Some (OtherError ''shape'')),
       EvExit ''data/x.svm'' None])"
    by (simp add: save_def invalidate_cache_def logged_def mem_env_def mem_save_path_def
        example_dataset_def bad_data_def Let_def)
  then have ev: "EvDumpSvm ''data/x.svm'' [(''zero_based'', PBool False)] (Some (OtherError ''shape''))
     \<in> set (log_of (save (logged mem_env) example_dataset bad_data ([], [])))"
    by (simp add: log_of_def)
  from failed_encode_skips_invalidation [OF ev] ev run show ?thesis
    by (simp add: log_of_def)
qed

text \<open>A cache is invalidated only after an encode and a close that raised nothing.\<close>

lemma invalidation_needs_success:
  assumes "invalidated_paths (log_of (save (logged env) self data (w, []))) \<noteq> []"
  shows "\<exists>pre h a fs p r. log_of (save (logged env) self data (w, [])) =
           pre @ [EvDumpSvm h a None, EvExit h None, EvInvalidate fs p r]"
  using save_run_cases [of env self data w] assms by auto

section \<open>Dictionaries\<close>

lemma dict_pop_snd: "snd (dict_pop k dflt d) = AList.delete k d"
  by (auto simp: dict_pop_def AList.delete_id map_of_eq_None_iff split: option.splits)

lemma dict_pop_fst: "fst (dict_pop k dflt d) = (case map_of d k of None \<Rightarrow> dflt | Some v \<Rightarrow> v)"
  by (simp add: dict_pop_def split: option.splits)

lemma delete_twice: "AList.delete b (AList.delete a d) = filter (\<lambda>(k, v). k \<noteq> a \<and> k \<noteq> b) d"
  by (induction d) auto

lemma pops_remaining:
  "AList.delete ''open_args_save'' (AList.delete ''open_args_load'' (or_empty fa)) = remaining_fs_args fa"
  by (simp add: remaining_fs_args_def delete_twice)

lemma map_of_remaining:
  "k \<noteq> ''open_args_load'' \<Longrightarrow> k \<noteq> ''open_args_save'' \<Longrightarrow>
   map_of (remaining_fs_args fa) k = map_of (or_empty fa) k"
  unfolding pops_remaining [symmetric] by (simp add: AList.delete_conv')

lemma remaining_keys:
  "set (map fst (remaining_fs_args fa)) =
     set (map fst (or_empty fa)) - {''open_args_load'', ''open_args_save''}"
  by (auto simp: remaining_fs_args_def intro: rev_image_eqI)

lemma map_of_dict_merge:
  "distinct (map fst b) \<Longrightarrow> map_of (dict_merge a b) = map_of a ++ map_of b"
  unfolding dict_merge_def
proof (induction b arbitrary: a)
  case Nil
  then show ?case by simp
next
  case (Cons kv b)
  obtain k v where kv: "kv = (k, v)" by (cases kv)
  from Cons.prems kv have d: "distinct (map fst b)" and nk: "map_of b k = None"
    by (auto simp: map_of_eq_None_iff)
  show ?case
    using Cons.IH [OF d, of "AList.update k v a"] nk
    by (auto simp: kv AList.update_conv' map_add_def fun_eq_iff split: option.splits)
qed

lemma map_of_dict_setdefault:
  "map_of (dict_setdefault k v d) k' =
     (if k' = k then (case map_of d k of None \<Rightarrow> Some v | Some x \<Rightarrow> Some x) else map_of d k')"
  by (auto simp: dict_setdefault_def map_add_def split: option.splits)

lemma setdefault_has_key: "k \<in> set (map fst (dict_setdefault k v d))"
  by (auto simp: dict_setdefault_def map_of_eq_None_iff split: option.splits dest: map_of_SomeD intro: rev_image_eqI)

lemma unpack_or_empty:
  "unpack_mapping (py_or v (PDict [])) = Inr d \<Longrightarrow> d = (case v of PDict kvs \<Rightarrow> kvs | _ \<Rightarrow> [])"
  by (cases v) (auto simp: py_or_def split: if_splits)

lemma unpack_popped:
  "unpack_mapping (py_or (popped fa k) (PDict [])) = Inr d \<Longrightarrow> d = caller_open_args fa k"
  by (drule unpack_or_empty) (simp add: popped_def caller_open_args_def split: option.splits pyval.splits)

lemma default_open_args:
  "unpack_mapping (dict_get DEFAULT_FS_ARGS ''open_args_load'' (PDict [])) = Inr [(''mode'', PStr ''rb'')]"
  "unpack_mapping (dict_get DEFAULT_FS_ARGS ''open_args_save'' (PDict [])) = Inr [(''mode'', PStr ''wb'')]"
  by (simp_all add: DEFAULT_FS_ARGS_def dict_get_def)

section \<open>The constructor\<close>

text \<open>
  \<open>__init__\<close> with the two \<open>pop\<close>s and the defaults evaluated: what is left are the calls
  that can raise.
\<close>

lemma init_unfold:
  "SVMLightDataset_init env fp la sa v cr fa md w =
     (case get_protocol_and_path env fp v of
        Inl e \<Rightarrow> (Inl e, w)
      | Inr pp \<Rightarrow>
         (case call_kwargs (or_empty cr)
                 (if fst pp = ''file''
                  then dict_setdefault ''auto_mkdir'' (PBool True) (remaining_fs_args fa)
                  else remaining_fs_args fa) of
            Inl e \<Rightarrow> (Inl e, w)
          | Inr kwargs \<Rightarrow>
             (case fsspec_filesystem env (fst pp) kwargs w of
                (Inl e, w1) \<Rightarrow> (Inl e, w1)
              | (Inr fs, w1) \<Rightarrow>
                 (case unpack_mapping (py_or (popped fa ''open_args_load'') (PDict [])) of
                    Inl e \<Rightarrow> (Inl e, w1)
                  | Inr open_load \<Rightarrow>
                     (case unpack_mapping (py_or (popped fa ''open_args_save'') (PDict [])) of
                        Inl e \<Rightarrow> (Inl e, w1)
                      | Inr open_save \<Rightarrow>
                          (Inr \<lparr> self_protocol = fst pp,
                                 self_fs = fs,
                                 self_metadata = md,
                                 self_filepath = PurePosixPath (snd pp),
                                 self_version = v,
                                 self_load_args = dict_merge DEFAULT_LOAD_ARGS (or_empty la),
                                 self_save_args = dict_merge DEFAULT_SAVE_ARGS (or_empty sa),
                                 self_fs_open_args_load = dict_merge [(''mode'', PStr ''rb'')] open_load,
                                 self_fs_open_args_save = dict_merge [(''mode'', PStr ''wb'')] open_save \<rparr>,
                           w1))))))"
proof -
  let ?d = "or_empty fa"
  have l: "fst (dict_pop ''open_args_load'' (PDict []) ?d) = popped fa ''open_args_load''"
    by (simp add: dict_pop_fst popped_def)
  have s: "fst (dict_pop ''open_args_save'' (PDict []) (AList.delete ''open_args_load'' ?d))
             = popped fa ''open_args_save''"
    by (simp add: dict_pop_fst AList.delete_conv' popped_def)
  show ?thesis
    unfolding SVMLightDataset_init_def Let_def case_prod_beta deepcopy_def dict_pop_snd
      pops_remaining l s default_open_args sum.case
    by (rule refl)
qed

lemma logged_init:
  "fst (SVMLightDataset_init (logged env) fp la sa v cr fa md (w, l))
     = fst (SVMLightDataset_init env fp la sa v cr fa md w) \<and>
   fst (snd (SVMLightDataset_init (logged env) fp la sa v cr fa md (w, l)))
     = snd (SVMLightDataset_init env fp la sa v cr fa md w)"
proof -
  have gp: "get_protocol_and_path (logged env) = get_protocol_and_path env"
    by (simp add: logged_def)
  have mk: "fsspec_filesystem (logged env) p kw (w, l) =
          (fst (fsspec_filesystem env p kw w), snd (fsspec_filesystem env p kw w), l @ [EvFilesystem p kw])" for p kw
    by (simp add: logged_def split: prod.splits)
  show ?thesis
    unfolding init_unfold gp
    by (auto simp: mk split: sum.splits prod.splits)
qed

lemma init_success:
  assumes "SVMLightDataset_init env fp la sa v cr fa md w = (Inr self, w1)"
  shows "\<exists>path. get_protocol_and_path env fp v = Inr (self_protocol self, path)
           \<and> self_filepath self = PurePosixPath path
           \<and> call_kwargs (or_empty cr) (if self_protocol self = ''file''
                then dict_setdefault ''auto_mkdir'' (PBool True) (remaining_fs_args fa)
                else remaining_fs_args fa) = Inr (constructor_kwargs (self_protocol self) cr fa)
           \<and> fsspec_filesystem env (self_protocol self) (constructor_kwargs (self_protocol self) cr fa) w
               = (Inr (self_fs self), w1)
           \<and> self_fs_open_args_load self =
               dict_merge [(''mode'', PStr ''rb'')] (caller_open_args fa ''open_args_load'')
           \<and> self_fs_open_args_save self =
               dict_merge [(''mode'', PStr ''wb'')] (caller_open_args fa ''open_args_save'')"
proof -
  from assms obtain pp where gpp: "get_protocol_and_path env fp v = Inr pp"
    unfolding init_unfold by (cases "get_protocol_and_path env fp v") auto
  let ?rest = "if fst pp = ''file''
                then dict_setdefault ''auto_mkdir'' (PBool True) (remaining_fs_args fa)
                else remaining_fs_args fa"
  from assms gpp obtain kwargs where kw: "call_kwargs (or_empty cr) ?rest = Inr kwargs"
    unfolding init_unfold by (cases "call_kwargs (or_empty cr) ?rest") auto
  then have kw_eq: "kwargs = constructor_kwargs (fst pp) cr fa"
    by (auto simp: call_kwargs_def constructor_kwargs_def split: if_splits)
  from assms gpp kw obtain fs w1' where mk: "fsspec_filesystem env (fst pp) kwargs w = (Inr fs, w1')"
    unfolding init_unfold by (cases "fsspec_filesystem env (fst pp) kwargs w") (auto split: sum.splits)
  from assms gpp kw mk obtain ol where ol: "unpack_mapping (py_or (popped fa ''open_args_load'') (PDict [])) = Inr ol"
    unfolding init_unfold by (cases "unpack_mapping (py_or (popped fa ''open_args_load'') (PDict []))") auto
  from assms gpp kw mk ol obtain os where os: "unpack_mapping (py_or (popped fa ''open_args_save'') (PDict [])) = Inr os"
    unfolding init_unfold by (cases "unpack_mapping (py_or (popped fa ''open_args_save'') (PDict []))") auto
  from assms gpp kw mk ol os have self:
    "self = \<lparr> self_protocol = fst pp, self_fs = fs, self_metadata = md,
              self_filepath = PurePosixPath (snd pp), self_version = v,
              self_load_args = dict_merge DEFAULT_LOAD_ARGS (or_empty la),
              self_save_args = dict_merge DEFAULT_SAVE_ARGS (or_empty sa),
              self_fs_open_args_load = dict_merge [(''mode'', PStr ''rb'')] ol,
              self_fs_open_args_save = dict_merge [(''mode'', PStr ''wb'')] os \<rparr>"
    and w1: "w1 = w1'"
    unfolding init_unfold by auto
  from gpp have "get_protocol_and_path env fp v = Inr (self_protocol self, snd pp)"
    by (simp add: self)
  moreover have "self_filepath self = PurePosixPath (snd pp)" by (simp add: self)
  moreover from kw kw_eq have "call_kwargs (or_empty cr) (if self_protocol self = ''file''
                then dict_setdefault ''auto_mkdir'' (PBool True) (remaining_fs_args fa)
                else remaining_fs_args fa) = Inr (constructor_kwargs (self_protocol self) cr fa)"
    by (simp add: self)
  moreover from mk kw_eq w1 have "fsspec_filesystem env (self_protocol self) (constructor_kwargs (self_protocol self) cr fa) w
               = (Inr (self_fs self), w1)"
    by (simp add: self)
  moreover from unpack_popped [OF ol] have "self_fs_open_args_load self =
               dict_merge [(''mode'', PStr ''rb'')] (caller_open_args fa ''open_args_load'')"
    by (simp add: self)
  moreover from unpack_popped [OF os] have "self_fs_open_args_save self =
               dict_merge [(''mode'', PStr ''wb'')] (caller_open_args fa ''open_args_save'')"
    by (simp add: self)
  ultimately show ?thesis by blast
qed

lemma init_filesystem_calls:
  assumes "(protocol, kwargs) \<in> set (filesystem_calls
             (log_of (SVMLightDataset_init (logged env) fp la sa v cr fa md (w, []))))"
  shows "(\<exists>path. get_protocol_and_path env fp v = Inr (protocol, path))
       \<and> kwargs = constructor_kwargs protocol cr fa
       \<and> call_kwargs (or_empty cr) (if protocol = ''file''
                then dict_setdefault ''auto_mkdir'' (PBool True) (remaining_fs_args fa)
                else remaining_fs_args fa) = Inr kwargs
       \<and> filesystem_calls (log_of (SVMLightDataset_init (logged env) fp la sa v cr fa md (w, [])))
           = [(protocol, kwargs)]"
proof -
  have gp: "get_protocol_and_path (logged env) = get_protocol_and_path env"
    by (simp add: logged_def)
  have mk: "fsspec_filesystem (logged env) p kw (w, []) =
          (fst (fsspec_filesystem env p kw w), snd (fsspec_filesystem env p kw w), [EvFilesystem p kw])" for p kw
    by (simp add: logged_def split: prod.splits)
  show ?thesis
  proof (cases "get_protocol_and_path env fp v")
    case (Inl e)
    with assms show ?thesis by (simp add: init_unfold gp log_of_def)
  next
    case (Inr pp)
    let ?rest = "if fst pp = ''file''
                then dict_setdefault ''auto_mkdir'' (PBool True) (remaining_fs_args fa)
                else remaining_fs_args fa"
    show ?thesis
    proof (cases "call_kwargs (or_empty cr) ?rest")
      case (Inl e)
      with assms Inr show ?thesis by (simp add: init_unfold gp log_of_def)
    next
      case kw: (Inr kw)
      then have kw_eq: "kw = constructor_kwargs (fst pp) cr fa"
        by (auto simp: call_kwargs_def constructor_kwargs_def split: if_splits)
      have "filesystem_calls (log_of (SVMLightDataset_init (logged env) fp la sa v cr fa md (w, [])))
              = [(fst pp, kw)]"
        using Inr kw by (simp add: init_unfold gp mk log_of_def split: sum.splits)
      with assms Inr kw kw_eq show ?thesis by (cases pp) auto
    qed
  qed
qed

lemma load_open_args:
  "EvOpen fs p a r \<in> set (log_of (load (logged env) self (w, []))) \<Longrightarrow> a = self_fs_open_args_load self"
  using load_log_cases [OF refl, of env self w] by auto

lemma save_open_args:
  "EvOpen fs p a r \<in> set (log_of (save (logged env) self data (w, []))) \<Longrightarrow> a = self_fs_open_args_save self"
  using save_run_cases [of env self data w] by auto

lemma text_dataset_init:
  "SVMLightDataset_init mem_env ''data/x.svm'' None (Some [(''zero_based'', PBool False)]) None None
     (Some text_fs_args) None [] = (Inr text_dataset, [])"
  by (simp add: init_unfold mem_env_def mem_protocol_and_path_def or_empty_def
      dict_setdefault_def call_kwargs_def py_or_def popped_def remaining_fs_args_def text_fs_args_def
      dict_merge_def DEFAULT_LOAD_ARGS_def DEFAULT_SAVE_ARGS_def example_dataset_def text_dataset_def)

lemma load_text_run:
  "load (logged mem_env) text_dataset ([''data/x.svm''], []) =
     (Inr ([], []), [''data/x.svm''],
      [EvGetLoadPath (Inr (PurePosixPath ''data/x.svm'')),
       EvOpen ''file'' ''data/x.svm'' [(''mode'', PStr ''r''), (''encoding'', PStr ''utf-8'')] (Inr ''data/x.svm''),
       EvLoadSvm ''data/x.svm'' [] None,
       EvExit ''data/x.svm'' None])"
  by (simp add: load_def logged_def mem_env_def mem_load_path_def raised_def
      text_dataset_def example_dataset_def Let_def)

lemmas init_run_simps = init_unfold logged_def mem_env_def mem_protocol_and_path_def or_empty_def
  dict_setdefault_def call_kwargs_def py_or_def popped_def remaining_fs_args_def log_of_def
  project_fs_args_def

lemma init_calls_local:
  "filesystem_calls (log_of (SVMLightDataset_init (logged mem_env) ''data/x.svm'' None None None
       (Some [(''token'', PNone)]) (Some project_fs_args) None ([], [])))
     = [(''file'', [(''token'', PNone), (''project'', PStr ''my-project''), (''auto_mkdir'', PBool True)])]"
  by (simp add: init_run_simps)

lemma init_calls_no_mkdir:
  "filesystem_calls (log_of (SVMLightDataset_init (logged mem_env) ''data/x.svm'' None None None
       None (Some [(''auto_mkdir'', PBool False)]) None ([], [])))
     = [(''file'', [(''auto_mkdir'', PBool False)])]"
  by (simp add: init_run_simps)

lemma init_calls_s3:
  "filesystem_calls (log_of (SVMLightDataset_init (logged mem_env) ''s3://bucket/x.svm'' None None None
       (Some [(''token'', PNone)]) (Some project_fs_args) None ([], [])))
     = [(''s3'', [(''token'', PNone), (''project'', PStr ''my-project'')])]"
  by (simp add: init_run_simps)

lemma init_calls_reserved_credentials:
  "filesystem_calls (log_of (SVMLightDataset_init (logged mem_env) ''data/x.svm'' None None None
       (Some [(''open_args_save'', PDict [(''mode'', PStr ''w'')])]) (Some project_fs_args) None ([], [])))
     = [(''file'', [(''open_args_save'', PDict [(''mode'', PStr ''w'')]),
                   (''project'', PStr ''my-project''), (''auto_mkdir'', PBool True)])]"
  by (simp add: init_run_simps)

section \<open>Properties of the constructor\<close>

text \<open>
  C1. After a construction that succeeds, the open-options stored for \<open>load\<close> are
  \<open>{"mode": "rb"}\<close> merged with the sub-map the caller supplied under \<open>open_args_load\<close>, and
  those stored for \<open>save\<close> are \<open>{"mode": "wb"}\<close> merged with the sub-map under
  \<open>open_args_save\<close>: the default first, the caller's entries second. For a sub-map that is a
  dictionary (each key once), a lookup finds the caller's value before the default, and a
  \<open>mode\<close> of the caller is the mode with which \<open>load\<close> and \<open>save\<close> open the file.
\<close>

theorem open_args_merge:
  assumes "SVMLightDataset_init env fp la sa v cr fa md w = (Inr self, w1)"
  shows "self_fs_open_args_load self =
           dict_merge [(''mode'', PStr ''rb'')] (caller_open_args fa ''open_args_load'')
       \<and> self_fs_open_args_save self =
           dict_merge [(''mode'', PStr ''wb'')] (caller_open_args fa ''open_args_save'')
       \<and> (distinct (map fst (caller_open_args fa ''open_args_load'')) \<longrightarrow>
            map_of (self_fs_open_args_load self) =
              map_of [(''mode'', PStr ''rb'')] ++ map_of (caller_open_args fa ''open_args_load'')
          \<and> (map_of (caller_open_args fa ''open_args_load'') ''mode'' = Some m \<longrightarrow>
               EvOpen fs p a r \<in> set (log_of (load (logged env) self (u, []))) \<longrightarrow>
               map_of a ''mode'' = Some m))
       \<and> (distinct (map fst (caller_open_args fa ''open_args_save'')) \<longrightarrow>
            map_of (self_fs_open_args_save self) =
              map_of [(''mode'', PStr ''wb'')] ++ map_of (caller_open_args fa ''open_args_save'')
          \<and> (map_of (caller_open_args fa ''open_args_save'') ''mode'' = Some m' \<longrightarrow>
               EvOpen fs' p' a' r' \<in> set (log_of (save (logged env) self data (u', []))) \<longrightarrow>
               map_of a' ''mode'' = Some m'))"
proof -
  from init_success [OF assms]
  have l: "self_fs_open_args_load self =
           dict_merge [(''mode'', PStr ''rb'')] (caller_open_args fa ''open_args_load'')"
    and s: "self_fs_open_args_save self =
           dict_merge [(''mode'', PStr ''wb'')] (caller_open_args fa ''open_args_save'')"
    by blast+
  have ml: "map_of (self_fs_open_args_load self) =
              map_of [(''mode'', PStr ''rb'')] ++ map_of (caller_open_args fa ''open_args_load'')"
    if "distinct (map fst (caller_open_args fa ''open_args_load''))"
    using that by (simp only: l map_of_dict_merge)
  have ms: "map_of (self_fs_open_args_save self) =
              map_of [(''mode'', PStr ''wb'')] ++ map_of (caller_open_args fa ''open_args_save'')"
    if "distinct (map fst (caller_open_args fa ''open_args_save''))"
    using that by (simp only: s map_of_dict_merge)
  have ol: "map_of a ''mode'' = Some m"
    if "distinct (map fst (caller_open_args fa ''open_args_load''))"
      and "map_of (caller_open_args fa ''open_args_load'') ''mode'' = Some m"
      and "EvOpen fs p a r \<in> set (log_of (load (logged env) self (u, [])))"
    using load_open_args [OF that(3)] ml [OF that(1)] that(2) by (simp add: map_add_def)
  have os: "map_of a' ''mode'' = Some m'"
    if "distinct (map fst (caller_open_args fa ''open_args_save''))"
      and "map_of (caller_open_args fa ''open_args_save'') ''mode'' = Some m'"
      and "EvOpen fs' p' a' r' \<in> set (log_of (save (logged env) self data (u', [])))"
    using save_open_args [OF that(3)] ms [OF that(1)] that(2) by (simp add: map_add_def)
  from l s ml ms ol os show ?thesis by blast
qed

theorem open_args_merge_witness:
  "SVMLightDataset_init mem_env ''data/x.svm'' None (Some [(''zero_based'', PBool False)]) None None
     (Some text_fs_args) None [] = (Inr text_dataset, []) \<and>
   self_fs_open_args_load text_dataset = [(''mode'', PStr ''r''), (''encoding'', PStr ''utf-8'')] \<and>
   self_fs_open_args_save text_dataset = [(''mode'', PStr ''wb'')] \<and>
   distinct (map fst (caller_open_args (Some text_fs_args) ''open_args_load'')) \<and>
   map_of (caller_open_args (Some text_fs_args) ''open_args_load'') ''mode'' = Some (PStr ''r'') \<and>
   EvOpen ''file'' ''data/x.svm'' [(''mode'', PStr ''r''), (''encoding'', PStr ''utf-8'')] (Inr ''data/x.svm'')
     \<in> set (log_of (load (logged mem_env) text_dataset ([''data/x.svm''], []))) \<and>
   map_of [(''mode'', PStr ''r''), (''encoding'', PStr ''utf-8'')] ''mode'' = Some (PStr ''r'')"
proof -
  have c: "caller_open_args (Some text_fs_args) ''open_args_load''
             = [(''mode'', PStr ''r''), (''encoding'', PStr ''utf-8'')]"
    by (simp add: caller_open_args_def text_fs_args_def or_empty_def)
  have d: "distinct (map fst (caller_open_args (Some text_fs_args) ''open_args_load''))"
    by (simp add: c)
  have m: "map_of (caller_open_args (Some text_fs_args) ''open_args_load'') ''mode'' = Some (PStr ''r'')"
    by (simp add: c)
  have e: "EvOpen ''file'' ''data/x.svm'' [(''mode'', PStr ''r''), (''encoding'', PStr ''utf-8'')] (Inr ''data/x.svm'')
     \<in> set (log_of (load (logged mem_env) text_dataset ([''data/x.svm''], [])))"
    by (simp add: load_text_run log_of_def)
  from open_args_merge [OF text_dataset_init,
      of "PStr ''r''" "''file''" "''data/x.svm''" "[(''mode'', PStr ''r''), (''encoding'', PStr ''utf-8'')]"
         "Inr ''data/x.svm''" "[''data/x.svm'']"]
    text_dataset_init c d m e
  show ?thesis by (simp add: text_dataset_def example_dataset_def)
qed

text \<open>
  C5. When the constructor builds the filesystem, the protocol is the one derived from
  the filepath; for the protocol \<open>file\<close> the keyword \<open>auto_mkdir\<close> it passes is the value of
  \<open>fs_args\<close> when \<open>fs_args\<close> has one and \<open>True\<close> otherwise; for any other protocol the
  keywords are the credentials and the remaining \<open>fs_args\<close>, with nothing added.
\<close>

theorem auto_mkdir_default:
  assumes "(protocol, kwargs) \<in> set (filesystem_calls
             (log_of (SVMLightDataset_init (logged env) fp la sa v cr fa md (w, []))))"
  shows "(\<exists>path. get_protocol_and_path env fp v = Inr (protocol, path))
       \<and> (protocol = ''file'' \<longrightarrow>
            map_of kwargs ''auto_mkdir'' =
              Some (case map_of (or_empty fa) ''auto_mkdir'' of None \<Rightarrow> PBool True | Some x \<Rightarrow> x))
       \<and> (protocol \<noteq> ''file'' \<longrightarrow> kwargs = or_empty cr @ remaining_fs_args fa)"
proof -
  from init_filesystem_calls [OF assms]
  have gp: "\<exists>path. get_protocol_and_path env fp v = Inr (protocol, path)"
    and kw: "kwargs = constructor_kwargs protocol cr fa"
    and ck: "call_kwargs (or_empty cr) (if protocol = ''file''
                then dict_setdefault ''auto_mkdir'' (PBool True) (remaining_fs_args fa)
                else remaining_fs_args fa) = Inr kwargs"
    by blast+
  have "map_of kwargs ''auto_mkdir'' =
          Some (case map_of (or_empty fa) ''auto_mkdir'' of None \<Rightarrow> PBool True | Some x \<Rightarrow> x)"
    if f: "protocol = ''file''"
  proof -
    from ck f have "\<forall>k \<in> set (map fst (or_empty cr)).
        k \<notin> set (map fst (dict_setdefault ''auto_mkdir'' (PBool True) (remaining_fs_args fa)))"
      by (simp add: call_kwargs_def split: if_splits)
    with setdefault_has_key [of "''auto_mkdir''" "PBool True" "remaining_fs_args fa"]
    have "''auto_mkdir'' \<notin> set (map fst (or_empty cr))"
      by blast
    then have "map_of (or_empty cr) ''auto_mkdir'' = None"
      by (simp add: map_of_eq_None_iff)
    then show ?thesis
      by (simp add: kw f constructor_kwargs_def map_add_def map_of_dict_setdefault map_of_remaining
          split: option.splits)
  qed
  moreover have "kwargs = or_empty cr @ remaining_fs_args fa" if "protocol \<noteq> ''file''"
    using that by (simp add: kw constructor_kwargs_def)
  ultimately show ?thesis using gp by blast
qed

theorem auto_mkdir_default_witness:
  "(''file'', [(''token'', PNone), (''project'', PStr ''my-project''), (''auto_mkdir'', PBool True)])
     \<in> set (filesystem_calls (log_of (SVMLightDataset_init (logged mem_env) ''data/x.svm'' None None None
          (Some [(''token'', PNone)]) (Some project_fs_args) None ([], [])))) \<and>
   map_of [(''token'', PNone), (''project'', PStr ''my-project''), (''auto_mkdir'', PBool True)] ''auto_mkdir''
     = Some (PBool True) \<and>
   (''file'', [(''auto_mkdir'', PBool False)])
     \<in> set (filesystem_calls (log_of (SVMLightDataset_init (logged mem_env) ''data/x.svm'' None None None
          None (Some [(''auto_mkdir'', PBool False)]) None ([], [])))) \<and>
   map_of [(''auto_mkdir'', PBool False)] ''auto_mkdir'' = Some (PBool False) \<and>
   (''s3'', [(''token'', PNone), (''project'', PStr ''my-project'')])
     \<in> set (filesystem_calls (log_of (SVMLightDataset_init (logged mem_env) ''s3://bucket/x.svm'' None None None
          (Some [(''token'', PNone)]) (Some project_fs_args) None ([], [])))) \<and>
   ''s3'' \<noteq> ''file'' \<and>
   [(''token'', PNone), (''project'', PStr ''my-project'')]
     = or_empty (Some [(''token'', PNone)]) @ remaining_fs_args (Some project_fs_args)"
proof -
  have a: "(''file'', [(''token'', PNone), (''project'', PStr ''my-project''), (''auto_mkdir'', PBool True)])
     \<in> set (filesystem_calls (log_of (SVMLightDataset_init (logged mem_env) ''data/x.svm'' None None None
          (Some [(''token'', PNone)]) (Some project_fs_args) None ([], []))))"
    by (simp add: init_calls_local)
  have b: "(''file'', [(''auto_mkdir'', PBool False)])
     \<in> set (filesystem_calls (log_of (SVMLightDataset_init (logged mem_env) ''data/x.svm'' None None None
          None (Some [(''auto_mkdir'', PBool False)]) None ([], []))))"
    by (simp add: init_calls_no_mkdir)
  have c: "(''s3'', [(''token'', PNone), (''project'', PStr ''my-project'')])
     \<in> set (filesystem_calls (log_of (SVMLightDataset_init (logged mem_env) ''s3://bucket/x.svm'' None None None
          (Some [(''token'', PNone)]) (Some project_fs_args) None ([], []))))"
    by (simp add: init_calls_s3)
  from auto_mkdir_default [OF a]
  have "map_of [(''token'', PNone), (''project'', PStr ''my-project''), (''auto_mkdir'', PBool True)] ''auto_mkdir''
     = Some (case map_of (or_empty (Some project_fs_args)) ''auto_mkdir'' of None \<Rightarrow> PBool True | Some x \<Rightarrow> x)"
    by blast
  then have t1: "map_of [(''token'', PNone), (''project'', PStr ''my-project''), (''auto_mkdir'', PBool True)] ''auto_mkdir''
     = Some (PBool True)"
    by (simp add: or_empty_def project_fs_args_def)
  from auto_mkdir_default [OF b]
  have "map_of [(''auto_mkdir'', PBool False)] ''auto_mkdir''
     = Some (case map_of (or_empty (Some [(''auto_mkdir'', PBool False)])) ''auto_mkdir'' of
               None \<Rightarrow> PBool True | Some x \<Rightarrow> x)"
    by blast
  then have t2: "map_of [(''auto_mkdir'', PBool False)] ''auto_mkdir'' = Some (PBool False)"
    by (simp add: or_empty_def)
  have ne: "''s3'' \<noteq> ''file''" by simp
  from auto_mkdir_default [OF c] ne
  have t3: "[(''token'', PNone), (''project'', PStr ''my-project'')]
     = or_empty (Some [(''token'', PNone)]) @ remaining_fs_args (Some project_fs_args)"
    by blast
  from a b c t1 t2 t3 ne show ?thesis by blast
qed

text \<open>
  C6 (as stated). The filesystem constructor receives exactly the credentials and the
  \<open>fs_args\<close> left when the reserved keys are removed, and no reserved key. This fails for
  the local protocol, where \<open>auto_mkdir\<close> is added, and for credentials that hold a reserved
  key, which are passed as they are.
\<close>

theorem reserved_keys_exact_counterexample:
  "filesystem_calls (log_of (SVMLightDataset_init (logged mem_env) ''data/x.svm'' None None None
       (Some [(''open_args_save'', PDict [(''mode'', PStr ''w'')])]) (Some project_fs_args) None ([], [])))
     = [(''file'', [(''open_args_save'', PDict [(''mode'', PStr ''w'')]),
                   (''project'', PStr ''my-project''), (''auto_mkdir'', PBool True)])] \<and>
   [(''open_args_save'', PDict [(''mode'', PStr ''w'')]),
    (''project'', PStr ''my-project''), (''auto_mkdir'', PBool True)]
     \<noteq> or_empty (Some [(''open_args_save'', PDict [(''mode'', PStr ''w'')])])
         @ remaining_fs_args (Some project_fs_args) \<and>
   ''open_args_save'' \<in> set (map fst [(''open_args_save'', PDict [(''mode'', PStr ''w'')]),
                   (''project'', PStr ''my-project''), (''auto_mkdir'', PBool True)])"
  unfolding init_calls_reserved_credentials
  by (simp add: or_empty_def remaining_fs_args_def project_fs_args_def)

text \<open>
  C6 (amended). The constructor builds one filesystem. Its keyword arguments are the
  credentials, then the entries of \<open>fs_args\<close> other than \<open>open_args_load\<close> and
  \<open>open_args_save\<close>, then \<open>auto_mkdir=True\<close> when the protocol is \<open>file\<close> and \<open>fs_args\<close> has
  no \<open>auto_mkdir\<close>; a reserved key is among them only when the credentials hold it.
\<close>

theorem constructor_kwargs_passed:
  assumes "(protocol, kwargs) \<in> set (filesystem_calls
             (log_of (SVMLightDataset_init (logged env) fp la sa v cr fa md (w, []))))"
  shows "filesystem_calls (log_of (SVMLightDataset_init (logged env) fp la sa v cr fa md (w, [])))
           = [(protocol, kwargs)]
       \<and> kwargs = constructor_kwargs protocol cr fa
       \<and> (\<forall>k \<in> {''open_args_load'', ''open_args_save''}.
            k \<in> set (map fst kwargs) \<longrightarrow> k \<in> set (map fst (or_empty cr)))"
proof -
  from init_filesystem_calls [OF assms]
  have one: "filesystem_calls (log_of (SVMLightDataset_init (logged env) fp la sa v cr fa md (w, [])))
           = [(protocol, kwargs)]"
    and kw: "kwargs = constructor_kwargs protocol cr fa"
    by blast+
  have "set (map fst (dict_setdefault ''auto_mkdir'' (PBool True) d)) \<subseteq> insert ''auto_mkdir'' (set (map fst d))" for d
    by (auto simp: dict_setdefault_def split: option.splits)
  then have "set (map fst kwargs) \<subseteq>
       set (map fst (or_empty cr)) \<union> insert ''auto_mkdir'' (set (map fst (remaining_fs_args fa)))"
    unfolding kw constructor_kwargs_def by (auto split: if_splits)
  then have "\<forall>k \<in> {''open_args_load'', ''open_args_save''}.
            k \<in> set (map fst kwargs) \<longrightarrow> k \<in> set (map fst (or_empty cr))"
    unfolding remaining_keys by auto
  with one kw show ?thesis by blast
qed

theorem constructor_kwargs_passed_witness:
  "(''s3'', [(''token'', PNone), (''project'', PStr ''my-project'')])
     \<in> set (filesystem_calls (log_of (SVMLightDataset_init (logged mem_env) ''s3://bucket/x.svm'' None None None
          (Some [(''token'', PNone)]) (Some project_fs_args) None ([], [])))) \<and>
   [(''token'', PNone), (''project'', PStr ''my-project'')]
     = constructor_kwargs ''s3'' (Some [(''token'', PNone)]) (Some project_fs_args) \<and>
   ''open_args_load'' \<notin> set (map fst [(''token'', PNone), (''project'', PStr ''my-project'')]) \<and>
   ''open_args_load'' \<in> set (map fst project_fs_args)"
proof -
  have c: "(''s3'', [(''token'', PNone), (''project'', PStr ''my-project'')])
     \<in> set (filesystem_calls (log_of (SVMLightDataset_init (logged mem_env) ''s3://bucket/x.svm'' None None None
          (Some [(''token'', PNone)]) (Some project_fs_args) None ([], []))))"
    by (simp add: init_calls_s3)
  have k: "''open_args_load'' \<in> set (map fst project_fs_args)"
    by (simp add: project_fs_args_def)
  from constructor_kwargs_passed [OF c]
  have a: "[(''token'', PNone), (''project'', PStr ''my-project'')]
     = constructor_kwargs ''s3'' (Some [(''token'', PNone)]) (Some project_fs_args)"
    by blast
  have n: "''open_args_load'' \<notin> set (map fst [(''token'', PNone), (''project'', PStr ''my-project'')])"
    by simp
  from c a n k show ?thesis by blast
qed

text \<open>
  C7. An adapter constructed without \<open>fs_args\<close> opens the file with exactly
  \<open>mode="rb"\<close> in every \<open>load\<close> and with exactly \<open>mode="wb"\<close> in every \<open>save\<close>.
\<close>

theorem default_open_modes:
  assumes "SVMLightDataset_init env fp la sa v cr None md w = (Inr self, w1)"
  shows "(EvOpen fs p a r \<in> set (log_of (load (logged env) self (u, []))) \<longrightarrow>
            a = [(''mode'', PStr ''rb'')])
       \<and> (EvOpen fs' p' a' r' \<in> set (log_of (save (logged env) self data (u', []))) \<longrightarrow>
            a' = [(''mode'', PStr ''wb'')])"
proof -
  have none: "caller_open_args None k = []" for k
    by (simp add: caller_open_args_def or_empty_def)
  from init_success [OF assms]
  have "self_fs_open_args_load self = [(''mode'', PStr ''rb'')]"
    and "self_fs_open_args_save self = [(''mode'', PStr ''wb'')]"
    by (auto simp: none dict_merge_def)
  then show ?thesis
    using load_open_args [of fs p a r env self u] save_open_args [of fs' p' a' r' env self data u']
    by auto
qed

theorem default_open_modes_witness:
  "SVMLightDataset_init mem_env ''data/x.svm'' None (Some [(''zero_based'', PBool False)]) None None None None []
     = (Inr example_dataset, []) \<and>
   EvOpen ''file'' ''data/x.svm'' [(''mode'', PStr ''rb'')] (Inr ''data/x.svm'')
     \<in> set (log_of (load (logged mem_env) example_dataset ([''data/x.svm''], []))) \<and>
   EvOpen ''file'' ''data/x.svm'' [(''mode'', PStr ''wb'')] (Inr ''data/x.svm'')
     \<in> set (log_of (save (logged mem_env) example_dataset example_data ([], [])))"
proof -
  have l: "load (logged mem_env) example_dataset ([''data/x.svm''], []) =
     (Inr ([], []), [''data/x.svm''],
      [EvGetLoadPath (Inr (PurePosixPath ''data/x.svm'')),
       EvOpen ''file'' ''data/x.svm'' [(''mode'', PStr ''rb'')] (Inr ''data/x.svm''),
       EvLoadSvm ''data/x.svm'' [] None,
       EvExit ''data/x.svm'' None])"
    by (simp add: load_def logged_def mem_env_def mem_load_path_def raised_def
        example_dataset_def Let_def)
  have s: "save (logged mem_env) example_dataset example_data ([], []) =
     (None, [''data/x.svm''],
      [EvGetSavePath (Inr (PurePosixPath ''data/x.svm'')),
       EvOpen ''file'' ''data/x.svm'' [(''mode'', PStr ''wb'')] (Inr ''data/x.svm''),
       EvDumpSvm ''data/x.svm'' [(''zero_based'', PBool False)] None,
       EvExit ''data/x.svm'' None,
       EvInvalidate ''file'' ''data/x.svm'' None])"
    by (simp add: save_def invalidate_cache_def logged_def mem_env_def mem_save_path_def
        example_dataset_def example_data_def Let_def)
  have el: "EvOpen ''file'' ''data/x.svm'' [(''mode'', PStr ''rb'')] (Inr ''data/x.svm'')
     \<in> set (log_of (load (logged mem_env) example_dataset ([''data/x.svm''], [])))"
    by (simp add: l log_of_def)
  have es: "EvOpen ''file'' ''data/x.svm'' [(''mode'', PStr ''wb'')] (Inr ''data/x.svm'')
     \<in> set (log_of (save (logged mem_env) example_dataset example_data ([], [])))"
    by (simp add: s log_of_def)
  from default_open_modes [OF example_dataset_init, of "''file''" "''data/x.svm''" _ "Inr ''data/x.svm''"
      "[''data/x.svm'']" "''file''" "''data/x.svm''" _ "Inr ''data/x.svm''" example_data "[]"]
    example_dataset_init el es
  show ?thesis by blast
qed

section \<open>The constructor and the objects of its caller\<close>

text \<open>
  A deep copy writes only to the objects it creates: the store below any bound \<open>n0\<close> that
  the store had reached before is left as it was, and every reference the copy returns
  or enters in the memo is to an object at or above the bound.
\<close>

lemma deepcopy_frame:
  "deepcopy_obj n v memo s = (r, memo', s') \<Longrightarrow> n0 \<le> length s \<Longrightarrow> \<forall>p \<in> set memo. n0 \<le> snd p \<Longrightarrow>
     take n0 s' = take n0 s \<and> length s \<le> length s' \<and> (\<forall>p \<in> set memo'. n0 \<le> snd p)
     \<and> (\<forall>b. r = Some (ORef b) \<longrightarrow> n0 \<le> b)"
  "deepcopy_items n kvs y memo s = (ok, memo', s') \<Longrightarrow> n0 \<le> length s \<Longrightarrow> n0 \<le> y \<Longrightarrow>
     \<forall>p \<in> set memo. n0 \<le> snd p \<Longrightarrow>
     take n0 s' = take n0 s \<and> length s \<le> length s' \<and> (\<forall>p \<in> set memo'. n0 \<le> snd p)"
proof (induction n v memo s and n kvs y memo s arbitrary: r memo' s' and ok memo' s'
    rule: deepcopy_obj_deepcopy_items.induct)
  case (1 v memo s)
  then show ?case by simp
next
  case (2 n a memo s)
  show ?case
  proof (cases "map_of memo a")
    case (Some y)
    with 2 show ?thesis by (auto dest!: map_of_SomeD)
  next
    case None
    show ?thesis
    proof (cases "a < length s")
      case False
      with None 2 show ?thesis by simp
    next
      case True
      obtain ok m1 s1 where it: "deepcopy_items n (s ! a) (length s) ((a, length s) # memo) (s @ [[]]) = (ok, m1, s1)"
        by (cases "deepcopy_items n (s ! a) (length s) ((a, length s) # memo) (s @ [[]])")
      from "2.IH" [OF None True it] "2.prems"
      have "take n0 s1 = take n0 (s @ [[]]) \<and> length (s @ [[]]) \<le> length s1 \<and> (\<forall>p \<in> set m1. n0 \<le> snd p)"
        by simp
      with "2.prems" None True it show ?thesis by (auto split: if_splits)
    qed
  qed
next
  case (5 n k v kvs y memo s)
  obtain r1 m1 s1 where ob: "deepcopy_obj n v memo s = (r1, m1, s1)"
    by (cases "deepcopy_obj n v memo s")
  from "5.IH"(1) [OF ob] "5.prems"
  have f1: "take n0 s1 = take n0 s" "length s \<le> length s1" "\<forall>p \<in> set m1. n0 \<le> snd p"
    by simp_all
  show ?case
  proof (cases r1)
    case None
    with ob f1 "5.prems" show ?thesis by simp
  next
    case (Some v')
    let ?s2 = "s1[y := AList.update k v' (s1 ! y)]"
    from "5.prems" ob Some have rest: "deepcopy_items n kvs y m1 ?s2 = (ok, memo', s')"
      by simp
    from f1 "5.prems" have "n0 \<le> length ?s2" by simp
    from "5.IH"(2) [OF ob [symmetric] Some refl rest this] f1 "5.prems"
    have "take n0 s' = take n0 ?s2 \<and> length ?s2 \<le> length s' \<and> (\<forall>p \<in> set memo'. n0 \<le> snd p)"
      by simp
    with f1 "5.prems" show ?thesis by simp
  qed
qed auto


lemma alloc_frame:
  "alloc d s = (a, s') \<Longrightarrow> n0 \<le> length s \<Longrightarrow>
     take n0 s' = take n0 s \<and> length s \<le> length s' \<and> n0 \<le> a"
  by (auto simp: alloc_def)

lemma copy_or_empty_frame:
  assumes "copy_or_empty limit x s = (r, s')" and "n0 \<le> length s"
  shows "take n0 s' = take n0 s \<and> length s \<le> length s' \<and> (\<forall>a. r = Inr a \<longrightarrow> n0 \<le> a)"
proof -
  obtain c memo s1 where dc: "deepcopy_obj limit x [] s = (c, memo, s1)"
    by (cases "deepcopy_obj limit x [] s")
  from deepcopy_frame(1) [OF dc assms(2)]
  have f: "take n0 s1 = take n0 s" "length s \<le> length s1" "\<forall>b. c = Some (ORef b) \<longrightarrow> n0 \<le> b"
    by simp_all
  show ?thesis
  proof (cases c)
    case None
    with assms dc f show ?thesis by (auto simp: copy_or_empty_def)
  next
    case (Some v)
    show ?thesis
    proof (cases "truthy_obj s1 v")
      case True
      with assms dc f Some show ?thesis
        by (cases v) (auto simp: copy_or_empty_def)
    next
      case False
      with assms dc f Some show ?thesis
        by (auto simp: copy_or_empty_def alloc_def)
    qed
  qed
qed

lemma store_pop_frame:
  "store_pop f k s = (v, s') \<Longrightarrow> n0 \<le> length s \<Longrightarrow> n0 \<le> f \<Longrightarrow>
     take n0 s' = take n0 s \<and> length s \<le> length s'"
  by (auto simp: store_pop_def alloc_def split: prod.splits)

lemma store_setdefault_frame:
  "n0 \<le> f \<Longrightarrow> take n0 (store_setdefault f k v s) = take n0 s \<and>
     length (store_setdefault f k v s) = length s"
  by (simp add: store_setdefault_def)

lemma store_merge_frame:
  "store_merge dflt x s = (r, s') \<Longrightarrow> n0 \<le> length s \<Longrightarrow>
     take n0 s' = take n0 s \<and> length s \<le> length s'"
  by (cases x) (auto simp: store_merge_def alloc_def split: if_splits)


lemma init_store_run:
  "init_store 3 (Inr (''file'', ''data/x.svm'')) (\<lambda>protocol kwargs. None) ONone ONone (ORef 2) (ORef 0) caller_store =
     (Inr \<lparr> ref_fs_args = 3, ref_credentials = 7, ref_load_args = 10, ref_save_args = 12,
            ref_fs_open_args_load = 13, ref_fs_open_args_save = 15 \<rparr>,
      caller_store @
      [[(''project'', OStr ''my-project''), (''auto_mkdir'', OBool True)],
       [(''mode'', OStr ''r'')],
       [], [],
       [(''token'', ONone)],
       [(''token'', ONone), (''project'', OStr ''my-project''), (''auto_mkdir'', OBool True)],
       [], [], [], [],
       [(''mode'', OStr ''r'')],
       [],
       [(''mode'', OStr ''wb'')]])"
  by code_simp


lemma init_store_frame:
  assumes run: "init_store limit resolved mkfs la sa cr fa s = (r, s')"
  shows "take (length s) s' = s \<and> length s \<le> length s'
       \<and> (\<forall>refs. r = Inr refs \<longrightarrow>
            length s \<le> ref_fs_args refs \<and> length s \<le> ref_credentials refs)"
proof -
  let ?n = "length s"
  obtain r1 s1 where c1: "copy_or_empty limit fa s = (r1, s1)"
    by (cases "copy_or_empty limit fa s")
  from copy_or_empty_frame [OF c1, of ?n]
  have f1: "take ?n s1 = s" "?n \<le> length s1" "\<forall>a. r1 = Inr a \<longrightarrow> ?n \<le> a"
    by simp_all
  show ?thesis
  proof (cases r1)
    case (Inl e)
    with run c1 f1 show ?thesis by (auto simp: init_store_def)
  next
    case f: (Inr f)
    with f1 have nf: "?n \<le> f" by simp
    obtain ol s2 where p1: "store_pop f ''open_args_load'' s1 = (ol, s2)"
      by (cases "store_pop f ''open_args_load'' s1")
    from store_pop_frame [OF p1 f1(2) nf] f1
    have f2: "take ?n s2 = s" "?n \<le> length s2" by simp_all
    obtain os s3 where p2: "store_pop f ''open_args_save'' s2 = (os, s3)"
      by (cases "store_pop f ''open_args_save'' s2")
    from store_pop_frame [OF p2 f2(2) nf] f2
    have f3: "take ?n s3 = s" "?n \<le> length s3" by simp_all
    obtain r4 s4 where c2: "copy_or_empty limit cr s3 = (r4, s4)"
      by (cases "copy_or_empty limit cr s3")
    from copy_or_empty_frame [OF c2 f3(2)] f3
    have f4: "take ?n s4 = s" "?n \<le> length s4" "\<forall>a. r4 = Inr a \<longrightarrow> ?n \<le> a"
      by simp_all
    show ?thesis
    proof (cases r4)
      case (Inl e)
      with run c1 f p1 p2 c2 f4 show ?thesis by (auto simp: init_store_def)
    next
      case c: (Inr c)
      with f4 have nc: "?n \<le> c" by simp
      show ?thesis
      proof (cases resolved)
        case (Inl e)
        with run c1 f p1 p2 c2 c f4 show ?thesis by (auto simp: init_store_def)
      next
        case pp: (Inr pp)
        obtain protocol path where pp_eq: "pp = (protocol, path)" by (cases pp)
        let ?s5 = "if protocol = ''file''
                   then store_setdefault f ''auto_mkdir'' (OBool True) s4 else s4"
        from store_setdefault_frame [OF nf, of "''auto_mkdir''" "OBool True" s4] f4
        have f5: "take ?n ?s5 = s" "?n \<le> length ?s5" by simp_all
        show ?thesis
        proof (cases "call_kwargs (?s5 ! c) (?s5 ! f)")
          case (Inl e)
          with run c1 f p1 p2 c2 c pp pp_eq f5 show ?thesis by (auto simp: init_store_def Let_def)
        next
          case kw: (Inr kwargs)
          obtain k s6 where a6: "alloc kwargs ?s5 = (k, s6)"
            by (cases "alloc kwargs ?s5")
          from alloc_frame [OF a6 f5(2)] f5
          have f6: "take ?n s6 = s" "?n \<le> length s6" by simp_all
          show ?thesis
          proof (cases "mkfs protocol kwargs")
            case (Some e)
            with run c1 f p1 p2 c2 c pp pp_eq kw a6 f6 show ?thesis
              by (auto simp: init_store_def Let_def)
          next
            case None
            obtain r7 s7 where m7: "store_merge [] la s6 = (r7, s7)"
              by (cases "store_merge [] la s6")
            from store_merge_frame [OF m7 f6(2)] f6
            have f7: "take ?n s7 = s" "?n \<le> length s7" by simp_all
            obtain r8 s8 where m8: "store_merge [] sa s7 = (r8, s8)"
              by (cases "store_merge [] sa s7")
            from store_merge_frame [OF m8 f7(2)] f7
            have f8: "take ?n s8 = s" "?n \<le> length s8" by simp_all
            obtain r9 s9 where m9: "store_merge [(''mode'', OStr ''rb'')] ol s8 = (r9, s9)"
              by (cases "store_merge [(''mode'', OStr ''rb'')] ol s8")
            from store_merge_frame [OF m9 f8(2)] f8
            have f9: "take ?n s9 = s" "?n \<le> length s9" by simp_all
            obtain r10 s10 where m10: "store_merge [(''mode'', OStr ''wb'')] os s9 = (r10, s10)"
              by (cases "store_merge [(''mode'', OStr ''wb'')] os s9")
            from store_merge_frame [OF m10 f9(2)] f9
            have f10: "take ?n s10 = s" "?n \<le> length s10" by simp_all
            from run c1 f p1 p2 c2 c pp pp_eq kw a6 None m7 m8 m9 m10
            have "(s' = s7 \<or> s' = s8 \<or> s' = s9 \<or> s' = s10)
                  \<and> (\<forall>refs. r = Inr refs \<longrightarrow> ref_fs_args refs = f \<and> ref_credentials refs = c)"
              by (auto simp: init_store_def Let_def split: sum.splits)
            with f7 f8 f9 f10 nf nc show ?thesis by auto
          qed
        qed
      qed
    qed
  qed
qed

theorem constructor_leaves_caller_objects:
  "take (length s) (snd (init_store limit resolved mkfs la sa cr fa s)) = s \<and>
   (\<forall>refs. fst (init_store limit resolved mkfs la sa cr fa s) = Inr refs \<longrightarrow>
      length s \<le> ref_fs_args refs \<and> length s \<le> ref_credentials refs)"
  using init_store_frame [of limit resolved mkfs la sa cr fa s
      "fst (init_store limit resolved mkfs la sa cr fa s)"
      "snd (init_store limit resolved mkfs la sa cr fa s)"]
  by simp

theorem constructor_leaves_caller_objects_witness:
  "fst (init_store 3 (Inr (''file'', ''data/x.svm'')) (\<lambda>protocol kwargs. None) ONone ONone (ORef 2) (ORef 0) caller_store)
     = Inr \<lparr> ref_fs_args = 3, ref_credentials = 7, ref_load_args = 10, ref_save_args = 12,
             ref_fs_open_args_load = 13, ref_fs_open_args_save = 15 \<rparr> \<and>
   take (length caller_store)
     (snd (init_store 3 (Inr (''file'', ''data/x.svm'')) (\<lambda>protocol kwargs. None) ONone ONone (ORef 2) (ORef 0) caller_store))
     = caller_store \<and>
   snd (init_store 3 (Inr (''file'', ''data/x.svm'')) (\<lambda>protocol kwargs. None) ONone ONone (ORef 2) (ORef 0) caller_store) ! 3
     = [(''project'', OStr ''my-project''), (''auto_mkdir'', OBool True)] \<and>
   length caller_store \<le> 3 \<and> length caller_store \<le> 7"
proof -
  have len: "length caller_store = 3" by (simp add: caller_store_def)
  from constructor_leaves_caller_objects [of caller_store 3 "Inr (''file'', ''data/x.svm'')" "\<lambda>protocol kwargs. None"
      ONone ONone "ORef 2" "ORef 0"]
  have "take (length caller_store)
     (snd (init_store 3 (Inr (''file'', ''data/x.svm'')) (\<lambda>protocol kwargs. None) ONone ONone (ORef 2) (ORef 0) caller_store))
     = caller_store"
    by blast
  then show ?thesis
    by (simp add: init_store_run len nth_append)
qed

end
